theory Spec2Isabelle
  imports Main "HOL-Library.AList"
begin

section \<open>Python values\<close>

text \<open>
  The resource classes of \<^verbatim>\<open>ado_wrapper\<close> are dataclasses whose fields hold strings,
  booleans, integers, \<^verbatim>\<open>None\<close>, \<^verbatim>\<open>datetime\<close> objects, lists, dicts and other resources.
  A dict is an association list in insertion order; its keys are strings, as in the state
  file and in the payloads of the REST API. \<open>PInst c fs\<close> is an instance of the resource class
  named \<open>c\<close> (a class of \<^verbatim>\<open>get_resource_variables()\<close>), with its dataclass fields \<open>fs\<close> in
  declaration order. Floats and objects of other classes are not part of the model.
\<close>

datatype scalar = SNone | SBool bool | SInt int | SStr string

text \<open>A naive \<^verbatim>\<open>datetime.datetime\<close> (no time zone).\<close>

record datetime =
  dt_year :: nat
  dt_month :: nat
  dt_day :: nat
  dt_hour :: nat
  dt_minute :: nat
  dt_second :: nat
  dt_microsecond :: nat

datatype pyval =
    PScalar scalar
  | PDateTime datetime
  | PList "pyval list"
  | PDict "(string \<times> pyval) list"
  | PInst string "(string \<times> pyval) list"

abbreviation PNone :: pyval where "PNone \<equiv> PScalar SNone"
abbreviation PBool :: "bool \<Rightarrow> pyval" where "PBool b \<equiv> PScalar (SBool b)"
abbreviation PInt :: "int \<Rightarrow> pyval" where "PInt i \<equiv> PScalar (SInt i)"
abbreviation PStr :: "string \<Rightarrow> pyval" where "PStr s \<equiv> PScalar (SStr s)"

text \<open>
  The exceptions of \<^verbatim>\<open>ado_wrapper.errors\<close> that \<^verbatim>\<open>state_managed_abc.py\<close> raises, and the
  built-in exceptions its statements can raise. \<open>DeletionFailed\<close> and \<open>UpdateFailed\<close> carry the
  values their f-strings format (class name, id, attribute, value, response text) instead of
  the rendered message, because those values need not be strings.
\<close>

datatype error =
    ResourceNotFound string
  | ValueError string
  | InvalidPermissionsError string
  | ResourceAlreadyExists string
  | DeletionFailed string pyval pyval
  | UpdateFailed string pyval string pyval string
  | KeyError string
  | TypeError
  | IndexError
  | AttributeError
  | JSONDecodeError
  | NotImplementedError
  | ConfigurationError

section \<open>The HTTP collaborator, the client and the resource classes\<close>

datatype http_method = GET | POST | PUT | PATCH | DELETE

record http_request =
  req_method :: http_method
  req_url :: string
  req_json :: "pyval option"

text \<open>
  A response of \<^verbatim>\<open>requests\<close>: \<open>resp_json\<close> is what \<^verbatim>\<open>request.json()\<close> returns, \<open>None\<close> when the
  body is not JSON and the call raises.
\<close>

record http_response =
  status_code :: int
  resp_text :: string
  resp_json :: "pyval option"

datatype plan_operation = PlanCreate | PlanUpdate

record planned_change =
  pc_kind :: string
  pc_operation :: plan_operation
  pc_url :: string
  pc_before :: "pyval option"
  pc_payload :: "(string \<times> pyval) list"

text \<open>
  Everything a call can change outside its arguments: the requests sent so far, the State
  Store (keyed by resource kind and id), the plan list and the lines printed.
\<close>

record world =
  http_log :: "http_request list"
  store :: "string \<times> pyval \<Rightarrow> pyval option"
  plan_list :: "planned_change list"
  printed :: "string list"

text \<open>
  The attributes of \<^verbatim>\<open>AdoClient\<close> that the lifecycle engine reads. The session answers a
  request, given the requests it has received before.
\<close>

record ado_client =
  ado_org :: string
  plan_mode :: bool
  suppress_warnings :: bool
  session :: "http_request list \<Rightarrow> http_request \<Rightarrow> http_response"

text \<open>
  A dataclass field with the metadata of \<^verbatim>\<open>field(default=..., metadata={...})\<close>, and a
  resource class: its \<^verbatim>\<open>__name__\<close>, its fields, and the two class methods that every subclass
  of \<^verbatim>\<open>StateManagedResource\<close> supplies or inherits.
\<close>

record field_desc =
  fd_name :: string
  fd_default :: "pyval option"
  fd_is_id :: bool
  fd_editable :: bool
  fd_internal_name :: "string option"

record resource_class =
  cls_name :: string
  cls_fields :: "field_desc list"
  cls_from_request_payload :: "pyval \<Rightarrow> error + pyval"
  cls_get_by_id :: "ado_client \<Rightarrow> pyval \<Rightarrow> world \<Rightarrow> (error + pyval) \<times> world"

text \<open>
  Modelled from the spec: \<^verbatim>\<open>get_resource_variables()\<close> of \<^verbatim>\<open>ado_wrapper.utils\<close>, which is not
  among the sources. The spec calls it the process-wide registry mapping type-name strings
  to type constructors; it is a parameter of the decoder.
\<close>

type_synonym registry = "string \<Rightarrow> resource_class option"

datatype create_result = Created pyval | Planned planned_change

section \<open>Python built-ins used by the code\<close>

definition digit_char :: "nat \<Rightarrow> char" where
  "digit_char n = char_of (48 + n)"

definition digit_val :: "char \<Rightarrow> nat option" where
  "digit_val c =
     (let k = (of_char c :: nat) in if 48 \<le> k \<and> k \<le> 57 then Some (k - 48) else None)"

function str_of_nat :: "nat \<Rightarrow> string" where
  "str_of_nat n =
     (if n < 10 then [digit_char n] else str_of_nat (n div 10) @ [digit_char (n mod 10)])"
  by pat_completeness auto
termination
  by (relation "measure id") auto

definition str_of_int :: "int \<Rightarrow> string" where
  "str_of_int i = (if i < 0 then CHR ''-'' # str_of_nat (nat (- i)) else str_of_nat (nat i))"

text \<open>\<^verbatim>\<open>str(value)\<close> for the values that are neither container, timestamp nor resource.\<close>

fun py_str :: "scalar \<Rightarrow> string" where
  "py_str SNone = ''None''"
| "py_str (SBool b) = (if b then ''True'' else ''False'')"
| "py_str (SInt i) = str_of_int i"
| "py_str (SStr s) = s"

text \<open>Zero-padded decimal of fixed width, and its parser.\<close>

fun zpad :: "nat \<Rightarrow> nat \<Rightarrow> string" where
  "zpad 0 n = []"
| "zpad (Suc w) n = zpad w (n div 10) @ [digit_char (n mod 10)]"

fun parse_digits :: "nat \<Rightarrow> string \<Rightarrow> nat option" where
  "parse_digits acc [] = Some acc"
| "parse_digits acc (c # cs) =
     (case digit_val c of None \<Rightarrow> None | Some d \<Rightarrow> parse_digits (10 * acc + d) cs)"

definition is_leap :: "nat \<Rightarrow> bool" where
  "is_leap y = (y mod 4 = 0 \<and> (y mod 100 \<noteq> 0 \<or> y mod 400 = 0))"

definition days_in_month :: "nat \<Rightarrow> nat \<Rightarrow> nat" where
  "days_in_month y m =
     (if m = 2 then (if is_leap y then 29 else 28)
      else if m = 4 \<or> m = 6 \<or> m = 9 \<or> m = 11 then 30 else 31)"

text \<open>The values a \<^verbatim>\<open>datetime\<close> object can hold.\<close>

definition valid_datetime :: "datetime \<Rightarrow> bool" where
  "valid_datetime t =
     (1 \<le> dt_year t \<and> dt_year t \<le> 9999 \<and> 1 \<le> dt_month t \<and> dt_month t \<le> 12 \<and>
      1 \<le> dt_day t \<and> dt_day t \<le> days_in_month (dt_year t) (dt_month t) \<and>
      dt_hour t < 24 \<and> dt_minute t < 60 \<and> dt_second t < 60 \<and> dt_microsecond t < 1000000)"

text \<open>
  \<^verbatim>\<open>datetime.isoformat()\<close> of a naive datetime: \<^verbatim>\<open>YYYY-MM-DDTHH:MM:SS\<close>, followed by
  \<^verbatim>\<open>.ffffff\<close> when the microsecond is not zero.
\<close>

definition isoformat :: "datetime \<Rightarrow> string" where
  "isoformat t =
     zpad 4 (dt_year t) @ ''-'' @ zpad 2 (dt_month t) @ ''-'' @ zpad 2 (dt_day t) @ ''T'' @
     zpad 2 (dt_hour t) @ '':'' @ zpad 2 (dt_minute t) @ '':'' @ zpad 2 (dt_second t) @
     (if dt_microsecond t = 0 then [] else ''.'' @ zpad 6 (dt_microsecond t))"

definition substr :: "string \<Rightarrow> nat \<Rightarrow> nat \<Rightarrow> string" where
  "substr s i j = take (j - i) (drop i s)"

definition mk_datetime ::
  "nat \<Rightarrow> nat \<Rightarrow> nat \<Rightarrow> nat \<Rightarrow> nat \<Rightarrow> nat \<Rightarrow> nat \<Rightarrow> datetime option" where
  "mk_datetime y mo d h mi sec us =
     (let t = \<lparr>dt_year = y, dt_month = mo, dt_day = d, dt_hour = h, dt_minute = mi,
                dt_second = sec, dt_microsecond = us\<rparr>
      in if valid_datetime t then Some t else None)"

text \<open>
  \<^verbatim>\<open>datetime.fromisoformat\<close> on the two layouts \<open>isoformat\<close> writes for a naive datetime (19
  characters, or 26 with the microseconds; any character may separate date and time). The
  other layouts Python accepts are not modelled and are answered like a malformed string.
\<close>

definition fromisoformat_str :: "string \<Rightarrow> datetime option" where
  "fromisoformat_str s =
     (if (length s = 19 \<or> (length s = 26 \<and> s ! 19 = CHR ''.'')) \<and>
         s ! 4 = CHR ''-'' \<and> s ! 7 = CHR ''-'' \<and> s ! 13 = CHR '':'' \<and> s ! 16 = CHR '':''
      then
        (case (parse_digits 0 (substr s 0 4), parse_digits 0 (substr s 5 7),
               parse_digits 0 (substr s 8 10), parse_digits 0 (substr s 11 13),
               parse_digits 0 (substr s 14 16), parse_digits 0 (substr s 17 19),
               parse_digits 0 (substr s 20 26)) of
           (Some y, Some mo, Some d, Some h, Some mi, Some sec, Some us) \<Rightarrow>
             mk_datetime y mo d h mi sec us
         | _ \<Rightarrow> None)
      else None)"

definition fromisoformat :: "pyval \<Rightarrow> error + datetime" where
  "fromisoformat v =
     (case v of
        PScalar (SStr s) \<Rightarrow>
          (case fromisoformat_str s of
             None \<Rightarrow> Inl (ValueError ''Invalid isoformat string'')
           | Some t \<Rightarrow> Inr t)
      | _ \<Rightarrow> Inl TypeError)"

text \<open>\<^verbatim>\<open>"::" in key\<close> and \<^verbatim>\<open>key.split("::")\<close>.\<close>

fun has_dc :: "string \<Rightarrow> bool" where
  "has_dc (c # d # cs) = ((c = CHR '':'' \<and> d = CHR '':'') \<or> has_dc (d # cs))"
| "has_dc _ = False"

fun split_dc_acc :: "string \<Rightarrow> string \<Rightarrow> string list" where
  "split_dc_acc acc (c # d # cs) =
     (if c = CHR '':'' \<and> d = CHR '':'' then acc # split_dc_acc [] cs
      else split_dc_acc (acc @ [c]) (d # cs))"
| "split_dc_acc acc cs = [acc @ cs]"

definition split_dc :: "string \<Rightarrow> string list" where
  "split_dc s = split_dc_acc [] s"

definition endswith :: "string \<Rightarrow> string \<Rightarrow> bool" where
  "endswith s x = (length x \<le> length s \<and> drop (length s - length x) s = x)"

definition startswith :: "string \<Rightarrow> string \<Rightarrow> bool" where
  "startswith s x = (take (length x) s = x)"

definition removeprefix :: "string \<Rightarrow> string \<Rightarrow> string" where
  "removeprefix s p = (if startswith s p then drop (length p) s else s)"

fun is_substring :: "string \<Rightarrow> string \<Rightarrow> bool" where
  "is_substring x [] = (x = [])"
| "is_substring x (c # cs) = (startswith (c # cs) x \<or> is_substring x cs)"

text \<open>
  \<^verbatim>\<open>dict(pairs)\<close> and a dict comprehension: each pair is stored in turn, a repeated key
  keeps its place and takes the later value.
\<close>

definition py_dict :: "(string \<times> 'v) list \<Rightarrow> (string \<times> 'v) list" where
  "py_dict ps = foldl (\<lambda>d (k, v). AList.update k v d) [] ps"

text \<open>\<^verbatim>\<open>key in container\<close>, \<^verbatim>\<open>obj[key]\<close> and \<^verbatim>\<open>obj[0]\<close> for a string \<open>key\<close>.\<close>

definition py_in :: "string \<Rightarrow> pyval \<Rightarrow> error + bool" where
  "py_in key container =
     (case container of
        PDict d \<Rightarrow> Inr (map_of d key \<noteq> None)
      | PList xs \<Rightarrow> Inr (PStr key \<in> set xs)
      | PScalar (SStr s) \<Rightarrow> Inr (is_substring key s)
      | _ \<Rightarrow> Inl TypeError)"

definition py_getitem_key :: "pyval \<Rightarrow> string \<Rightarrow> error + pyval" where
  "py_getitem_key obj key =
     (case obj of
        PDict d \<Rightarrow> (case map_of d key of None \<Rightarrow> Inl (KeyError key) | Some v \<Rightarrow> Inr v)
      | _ \<Rightarrow> Inl TypeError)"

definition py_getitem0 :: "pyval \<Rightarrow> error + pyval" where
  "py_getitem0 obj =
     (case obj of
        PList xs \<Rightarrow> (case xs of [] \<Rightarrow> Inl IndexError | x # _ \<Rightarrow> Inr x)
      | PScalar (SStr s) \<Rightarrow> (case s of [] \<Rightarrow> Inl IndexError | c # _ \<Rightarrow> Inr (PStr [c]))
      | PDict d \<Rightarrow> Inl (KeyError ''0'')
      | _ \<Rightarrow> Inl TypeError)"

text \<open>\<^verbatim>\<open>bool(value)\<close>.\<close>

definition py_bool :: "pyval \<Rightarrow> bool" where
  "py_bool v =
     (case v of
        PScalar SNone \<Rightarrow> False
      | PScalar (SBool b) \<Rightarrow> b
      | PScalar (SInt i) \<Rightarrow> i \<noteq> 0
      | PScalar (SStr s) \<Rightarrow> s \<noteq> []
      | PList xs \<Rightarrow> xs \<noteq> []
      | PDict d \<Rightarrow> d \<noteq> []
      | _ \<Rightarrow> True)"

text \<open>\<^verbatim>\<open>setattr(self, name, value)\<close> on a dataclass instance.\<close>

definition py_setattr :: "pyval \<Rightarrow> string \<Rightarrow> pyval \<Rightarrow> error + pyval" where
  "py_setattr obj name v =
     (case obj of
        PInst c fs \<Rightarrow> Inr (PInst c (AList.update name v fs))
      | _ \<Rightarrow> Inl AttributeError)"

text \<open>
  \<^verbatim>\<open>repr\<close> of a list of field names. A field name is an identifier, so its \<^verbatim>\<open>repr\<close> is the
  name between single quotes (character 39).
\<close>

fun join_reprs :: "string list \<Rightarrow> string" where
  "join_reprs [] = []"
| "join_reprs [n] = [CHR 39] @ n @ [CHR 39]"
| "join_reprs (n # ns) = [CHR 39] @ n @ [CHR 39] @ '', '' @ join_reprs ns"

definition py_repr_names :: "string list \<Rightarrow> string" where
  "py_repr_names names = ''['' @ join_reprs names @ '']''"

section \<open>The JSON codec\<close>

text \<open>
  \<^verbatim>\<open>recursively_convert_to_json\<close> and \<^verbatim>\<open>StateManagedResource.to_json\<close>
  (\<^verbatim>\<open>state_managed_abc.py\<close>, lines 13 to 23 and 53 to 57). The branches are the source's, in
  its order: dict, list, datetime, resource instance, anything else. In the fourth branch the
  source cuts the class name out of \<^verbatim>\<open>str(type(attribute_value))\<close>; for a class defined in a
  module that is its \<^verbatim>\<open>__name__\<close>, the name \<open>PInst\<close> carries. \<open>to_json_fields\<close> is \<^verbatim>\<open>to_json\<close>
  on the fields of the instance.
\<close>

fun recursively_convert_to_json :: "string \<Rightarrow> pyval \<Rightarrow> string \<times> pyval"
  and to_json_fields :: "(string \<times> pyval) list \<Rightarrow> (string \<times> pyval) list"
where
  "recursively_convert_to_json attribute_name (PDict d) =
     (attribute_name,
      PDict (py_dict (map (\<lambda>(key, v). (key, snd (recursively_convert_to_json [] v))) d)))"
| "recursively_convert_to_json attribute_name (PList xs) =
     (attribute_name, PList (map (\<lambda>v. snd (recursively_convert_to_json attribute_name v)) xs))"
| "recursively_convert_to_json attribute_name (PDateTime t) =
     (attribute_name @ ''::datetime'', PStr (isoformat t))"
| "recursively_convert_to_json attribute_name (PInst class_name fs) =
     (attribute_name @ ''::'' @ class_name, PDict (to_json_fields fs))"
| "recursively_convert_to_json attribute_name (PScalar s) = (attribute_name, PStr (py_str s))"
| "to_json_fields fs = py_dict (map (\<lambda>(a, v). recursively_convert_to_json a v) fs)"

fun to_json :: "pyval \<Rightarrow> error + pyval" where
  "to_json (PInst class_name fs) = Inr (PDict (to_json_fields fs))"
| "to_json _ = Inl AttributeError"

text \<open>
  \<^verbatim>\<open>cls(**kwargs)\<close> for a dataclass: an unexpected keyword or a missing field without a
  default is a \<^verbatim>\<open>TypeError\<close>; the instance holds the fields in declaration order.
\<close>

definition construct :: "resource_class \<Rightarrow> (string \<times> pyval) list \<Rightarrow> error + pyval" where
  "construct cls kwargs =
     (if \<exists>k \<in> set (map fst kwargs). k \<notin> set (map fd_name (cls_fields cls)) then Inl TypeError
      else
        (case those (map (\<lambda>f. case map_of kwargs (fd_name f) of
                                  Some v \<Rightarrow> Some v
                                | None \<Rightarrow> fd_default f) (cls_fields cls)) of
           None \<Rightarrow> Inl TypeError
         | Some vs \<Rightarrow> Inr (PInst (cls_name cls) (zip (map fd_name (cls_fields cls)) vs))))"

text \<open>
  \<^verbatim>\<open>recursively_convert_from_json\<close> and \<^verbatim>\<open>StateManagedResource.from_json\<close> (lines 26 to 37
  and 49 to 51). \<open>from_json_loop\<close> is the \<^verbatim>\<open>for\<close> loop over \<^verbatim>\<open>dictionary.items()\<close>: its second
  argument holds the items still to visit, its third is \<^verbatim>\<open>data_copy\<close>.
\<close>

fun from_json_loop ::
    "registry \<Rightarrow> (string \<times> pyval) list \<Rightarrow> (string \<times> pyval) list \<Rightarrow> error + (string \<times> pyval) list"
  and from_json :: "registry \<Rightarrow> resource_class \<Rightarrow> pyval \<Rightarrow> error + pyval"
where
  "from_json_loop reg [] data_copy = Inr data_copy"
| "from_json_loop reg ((key, v) # rest) data_copy =
     (if has_dc key \<and> last (split_dc key) \<noteq> ''datetime'' then
        (case split_dc key of
           [instance_name, class_type] \<Rightarrow>
             (case reg class_type of
                None \<Rightarrow> Inl (KeyError class_type)
              | Some class' \<Rightarrow>
                  (case from_json reg class' v of
                     Inl e \<Rightarrow> Inl e
                   | Inr obj \<Rightarrow>
                       from_json_loop reg rest
                         (AList.update instance_name obj (AList.delete key data_copy))))
         | _ \<Rightarrow> Inl (ValueError ''too many values to unpack (expected 2)''))
      else if endswith key ''::datetime'' then
        (case fromisoformat v of
           Inl e \<Rightarrow> Inl e
         | Inr t \<Rightarrow>
             from_json_loop reg rest
               (AList.update (hd (split_dc key)) (PDateTime t) (AList.delete key data_copy)))
      else from_json_loop reg rest data_copy)"
| "from_json reg cls (PDict d) =
     (case from_json_loop reg d d of
        Inl e \<Rightarrow> Inl e
      | Inr kwargs \<Rightarrow> construct cls kwargs)"
| "from_json reg cls _ = Inl AttributeError"

definition recursively_convert_from_json ::
  "registry \<Rightarrow> (string \<times> pyval) list \<Rightarrow> error + (string \<times> pyval) list" where
  "recursively_convert_from_json reg dictionary = from_json_loop reg dictionary dictionary"

section \<open>Modules that are not among the sources\<close>

text \<open>
  Modelled from the spec: \<^verbatim>\<open>StateManager.add_resource_to_state\<close>,
  \<^verbatim>\<open>remove_resource_from_state\<close> and \<^verbatim>\<open>update_resource_in_state\<close> (\<^verbatim>\<open>state_manager.py\<close> is
  missing). The spec describes a mapping of resource kind and id to the serialized resource:
  inserted on create, replaced on update, removed on delete.
\<close>

definition add_resource_to_state ::
  "string \<Rightarrow> pyval \<Rightarrow> pyval \<Rightarrow> (string \<times> pyval \<Rightarrow> pyval option) \<Rightarrow> (string \<times> pyval \<Rightarrow> pyval option)" where
  "add_resource_to_state kind resource_id js st = st((kind, resource_id) \<mapsto> js)"

definition remove_resource_from_state ::
  "string \<Rightarrow> pyval \<Rightarrow> (string \<times> pyval \<Rightarrow> pyval option) \<Rightarrow> (string \<times> pyval \<Rightarrow> pyval option)" where
  "remove_resource_from_state kind resource_id st = st((kind, resource_id) := None)"

definition update_resource_in_state ::
  "string \<Rightarrow> pyval \<Rightarrow> pyval \<Rightarrow> (string \<times> pyval \<Rightarrow> pyval option) \<Rightarrow> (string \<times> pyval \<Rightarrow> pyval option)" where
  "update_resource_in_state kind resource_id js st = st((kind, resource_id) \<mapsto> js)"

text \<open>
  Modelled from the spec: \<^verbatim>\<open>extract_id\<close> of \<^verbatim>\<open>ado_wrapper.utils\<close> (missing). The spec: a
  resource has one field marked as its identifier, and asking for the identifier of a type
  that declares none is a configuration error. \<open>cls\<close> is the class of \<open>obj\<close>.
\<close>

definition extract_id :: "resource_class \<Rightarrow> pyval \<Rightarrow> error + pyval" where
  "extract_id cls obj =
     (case filter fd_is_id (cls_fields cls) of
        [] \<Rightarrow> Inl ConfigurationError
      | f # _ \<Rightarrow>
          (case obj of
             PInst _ fs \<Rightarrow>
               (case map_of fs (fd_name f) of None \<Rightarrow> Inl AttributeError | Some v \<Rightarrow> Inr v)
           | _ \<Rightarrow> Inl AttributeError))"

text \<open>
  Modelled from the spec: \<^verbatim>\<open>get_internal_field_names\<close> of \<^verbatim>\<open>ado_wrapper.utils\<close> (missing). The
  spec: a mapping from each editable field's local name to its wire name, which defaults to
  the field's own name.
\<close>

definition get_internal_field_names :: "resource_class \<Rightarrow> (string \<times> string) list" where
  "get_internal_field_names cls =
     py_dict (map (\<lambda>f. (fd_name f, case fd_internal_name f of None \<Rightarrow> fd_name f | Some n \<Rightarrow> n))
                (filter fd_editable (cls_fields cls)))"

text \<open>
  Modelled from the spec: \<^verbatim>\<open>PlannedStateManagedResource.create\<close> and \<^verbatim>\<open>.update\<close>
  (\<^verbatim>\<open>plan_resources/plan_resource.py\<close> is missing). The spec: the call is turned into a Planned
  Change record (resource kind, operation, target url, before-state for updates, proposed
  payload) appended to an in-memory plan list; no HTTP request is issued and the State Store
  is not changed. Create returns the staged record as its placeholder.
\<close>

definition planned_create ::
  "resource_class \<Rightarrow> ado_client \<Rightarrow> string \<Rightarrow> (string \<times> pyval) list option \<Rightarrow> world
     \<Rightarrow> (error + create_result) \<times> world" where
  "planned_create cls cl url payload w =
     (let change = \<lparr>pc_kind = cls_name cls, pc_operation = PlanCreate, pc_url = url,
                     pc_before = None,
                     pc_payload = (case payload of None \<Rightarrow> [] | Some d \<Rightarrow> d)\<rparr>
      in (Inr (Planned change), w\<lparr>plan_list := plan_list w @ [change]\<rparr>))"

definition planned_update ::
  "resource_class \<Rightarrow> pyval \<Rightarrow> ado_client \<Rightarrow> string \<Rightarrow> string \<Rightarrow> pyval \<Rightarrow> (string \<times> pyval) list
     \<Rightarrow> world \<Rightarrow> world" where
  "planned_update cls self cl url attribute_name attribute_value params w =
     w\<lparr>plan_list := plan_list w @
        [\<lparr>pc_kind = cls_name cls, pc_operation = PlanUpdate, pc_url = url,
          pc_before = Some self, pc_payload = params\<rparr>]\<rparr>"

section \<open>The generic lifecycle engine\<close>

text \<open>
  The class methods of \<^verbatim>\<open>StateManagedResource\<close> (\<^verbatim>\<open>state_managed_abc.py\<close>). Isabelle names
  cannot start with an underscore: \<open>smr_get_by_url\<close> is \<^verbatim>\<open>_get_by_url\<close>, \<open>smr_create\<close> is
  \<^verbatim>\<open>_create\<close>, \<open>smr_delete_by_id\<close> is \<^verbatim>\<open>_delete_by_id\<close> and \<open>smr_update\<close> is \<^verbatim>\<open>_update\<close>. Each
  takes the world and returns it with what the call changed; a raised exception is \<open>Inl\<close>.
\<close>

definition full_url :: "ado_client \<Rightarrow> string \<Rightarrow> string" where
  "full_url cl url =
     (if \<not> startswith url ''https://'' then ''https://dev.azure.com/'' @ ado_org cl @ url else url)"

text \<open>One call of \<^verbatim>\<open>ado_client.session\<close>: the request is logged and answered.\<close>

definition http_send :: "ado_client \<Rightarrow> http_request \<Rightarrow> world \<Rightarrow> http_response \<times> world" where
  "http_send cl req w = (session cl (http_log w) req, w\<lparr>http_log := http_log w @ [req]\<rparr>)"

text \<open>Lines 72 to 74 of \<^verbatim>\<open>_get_by_url\<close>: the payload is read out of the response.\<close>

definition payload_of_response :: "resource_class \<Rightarrow> http_response \<Rightarrow> error + pyval" where
  "payload_of_response cls request =
     (case resp_json request of
        None \<Rightarrow> Inl JSONDecodeError
      | Some body \<Rightarrow>
          (case py_in ''value'' body of
             Inl e \<Rightarrow> Inl e
           | Inr True \<Rightarrow>
               (case py_getitem_key body ''value'' of
                  Inl e \<Rightarrow> Inl e
                | Inr vs \<Rightarrow>
                    (case py_getitem0 vs of
                       Inl e \<Rightarrow> Inl e
                     | Inr first \<Rightarrow> cls_from_request_payload cls first))
           | Inr False \<Rightarrow> cls_from_request_payload cls body))"

definition smr_get_by_url ::
  "resource_class \<Rightarrow> ado_client \<Rightarrow> string \<Rightarrow> world \<Rightarrow> (error + pyval) \<times> world" where
  "smr_get_by_url cls cl url w =
     (let (request, w1) =
            http_send cl \<lparr>req_method = GET, req_url = full_url cl url, req_json = None\<rparr> w
      in if status_code request = 404 then
           (Inl (ResourceNotFound (''No '' @ cls_name cls @ '' found with that identifier!'')), w1)
         else if status_code request \<ge> 300 then
           (Inl (ValueError (''Error getting '' @ cls_name cls @ '' by id: '' @ resp_text request)),
            w1)
         else (payload_of_response cls request, w1))"

definition smr_create ::
  "resource_class \<Rightarrow> ado_client \<Rightarrow> string \<Rightarrow> (string \<times> pyval) list option \<Rightarrow> bool \<Rightarrow> world
     \<Rightarrow> (error + create_result) \<times> world" where
  "smr_create cls cl url payload refetch w =
     (if plan_mode cl then planned_create cls cl url payload w
      else
        (let (request, w1) =
               http_send cl \<lparr>req_method = POST, req_url = full_url cl url,
                             req_json = Some (PDict (case payload of None \<Rightarrow> [] | Some d \<Rightarrow> d))\<rparr> w
         in if status_code request \<ge> 300 then
              (if status_code request \<in> {401, 403} then
                 (Inl (InvalidPermissionsError
                    (''You do not have permission to create this '' @ cls_name cls @ ''! '' @
                     resp_text request)), w1)
               else if status_code request = 409 then
                 (Inl (ResourceAlreadyExists
                    (''The '' @ cls_name cls @ '' with that identifier already exist!'')), w1)
               else
                 (Inl (ValueError
                    (''Error creating '' @ cls_name cls @ '': '' @ str_of_int (status_code request) @
                     '' - '' @ resp_text request)), w1))
            else
              (case resp_json request of
                 None \<Rightarrow> (Inl JSONDecodeError, w1)
               | Some body \<Rightarrow>
                   (case cls_from_request_payload cls body of
                      Inl e \<Rightarrow> (Inl e, w1)
                    | Inr resource0 \<Rightarrow>
                        (case (if refetch then
                                 (case extract_id cls resource0 of
                                    Inl e \<Rightarrow> (Inl e, w1)
                                  | Inr i \<Rightarrow> cls_get_by_id cls cl i w1)
                               else (Inr resource0, w1)) of
                           (Inl e, w2) \<Rightarrow> (Inl e, w2)
                         | (Inr resource, w2) \<Rightarrow>
                             (case extract_id cls resource of
                                Inl e \<Rightarrow> (Inl e, w2)
                              | Inr i \<Rightarrow>
                                  (case to_json resource of
                                     Inl e \<Rightarrow> (Inl e, w2)
                                   | Inr js \<Rightarrow>
                                       (Inr (Created resource),
                                        w2\<lparr>store := add_resource_to_state (cls_name cls) i js
                                                        (store w2)\<rparr>))))))))"

text \<open>Lines 113 to 115 of \<^verbatim>\<open>_delete_by_id\<close>: the exception of a failed delete.\<close>

definition deletion_error :: "resource_class \<Rightarrow> pyval \<Rightarrow> http_response \<Rightarrow> error" where
  "deletion_error cls resource_id request =
     (case resp_json request of
        None \<Rightarrow> JSONDecodeError
      | Some body \<Rightarrow>
          (case py_in ''message'' body of
             Inl e \<Rightarrow> e
           | Inr True \<Rightarrow>
               (case py_getitem_key body ''message'' of
                  Inl e \<Rightarrow> e
                | Inr m \<Rightarrow> DeletionFailed (cls_name cls) resource_id m)
           | Inr False \<Rightarrow> DeletionFailed (cls_name cls) resource_id (PStr (resp_text request))))"

definition not_found_warning :: string where
  "not_found_warning =
     ''[ADO_WRAPPER] Resource not found, probably already deleted, removing from state''"

definition smr_delete_by_id ::
  "resource_class \<Rightarrow> ado_client \<Rightarrow> string \<Rightarrow> pyval \<Rightarrow> world \<Rightarrow> (error + unit) \<times> world" where
  "smr_delete_by_id cls cl url resource_id w =
     (let (request, w1) =
            http_send cl \<lparr>req_method = DELETE, req_url = full_url cl url, req_json = None\<rparr> w;
          checked =
            (if status_code request \<noteq> 204 then
               (if status_code request = 404 then
                  (if \<not> suppress_warnings cl then
                     Inr (w1\<lparr>printed := printed w1 @ [not_found_warning]\<rparr>)
                   else Inr w1)
                else Inl (deletion_error cls resource_id request))
             else Inr w1)
      in case checked of
           Inl e \<Rightarrow> (Inl e, w1)
         | Inr w2 \<Rightarrow>
             (Inr (),
              w2\<lparr>store := remove_resource_from_state (cls_name cls) resource_id (store w2)\<rparr>))"

text \<open>
  \<^verbatim>\<open>_update\<close> changes three things besides the world: it may raise, it sets an attribute of
  \<^verbatim>\<open>self\<close>, and it merges into the caller's \<^verbatim>\<open>params\<close>. The result holds all of them.
\<close>

definition smr_update ::
  "resource_class \<Rightarrow> pyval \<Rightarrow> ado_client \<Rightarrow> http_method \<Rightarrow> string \<Rightarrow> string \<Rightarrow> pyval
     \<Rightarrow> (string \<times> pyval) list \<Rightarrow> world
     \<Rightarrow> (error + unit) \<times> pyval \<times> (string \<times> pyval) list \<times> world" where
  "smr_update cls self cl update_action url attribute_name attribute_value params w =
     (let interal_names = get_internal_field_names cls
      in case map_of interal_names attribute_name of
           None \<Rightarrow>
             (Inl (ValueError (''The attribute `'' @ attribute_name @
                     ''` is not editable!  Editable attributes are: '' @
                     py_repr_names (map fst interal_names))),
              self, params, w)
         | Some internal \<Rightarrow>
             (let params' = AList.update internal attribute_value params
              in if plan_mode cl then
                   (Inr (), self, params',
                    planned_update cls self cl url attribute_name attribute_value params' w)
                 else
                   (let (request, w1) =
                          http_send cl \<lparr>req_method = update_action, req_url = full_url cl url,
                                        req_json = Some (PDict params')\<rparr> w
                    in if status_code request \<noteq> 200 then
                         (case extract_id cls self of
                            Inl e \<Rightarrow> (Inl e, self, params', w1)
                          | Inr i \<Rightarrow>
                              (Inl (UpdateFailed (cls_name cls) i attribute_name attribute_value
                                      (resp_text request)), self, params', w1))
                       else
                         (case py_setattr self attribute_name attribute_value of
                            Inl e \<Rightarrow> (Inl e, self, params', w1)
                          | Inr self' \<Rightarrow>
                              (case extract_id cls self' of
                                 Inl e \<Rightarrow> (Inl e, self', params', w1)
                               | Inr i \<Rightarrow>
                                   (case to_json self' of
                                      Inl e \<Rightarrow> (Inl e, self', params', w1)
                                    | Inr js \<Rightarrow>
                                        (Inr (), self', params',
                                         w1\<lparr>store := update_resource_in_state (cls_name cls) i js
                                                         (store w1)\<rparr>)))))))"

section \<open>Resource classes of the repository\<close>

text \<open>
  The base class leaves \<^verbatim>\<open>_get_by_id\<close> unimplemented, and no class among the sources
  overrides it.
\<close>

definition not_implemented_get_by_id ::
  "ado_client \<Rightarrow> pyval \<Rightarrow> world \<Rightarrow> (error + pyval) \<times> world" where
  "not_implemented_get_by_id cl resource_id w = (Inl NotImplementedError, w)"

text \<open>\<^verbatim>\<open>Repo\<close> and \<^verbatim>\<open>Repo.from_request_payload\<close> (\<^verbatim>\<open>resources/repo.py\<close>, lines 32 to 46).\<close>

definition Repo_from_request_payload :: "pyval \<Rightarrow> error + pyval" where
  "Repo_from_request_payload data =
     (case py_getitem_key data ''id'' of
        Inl e \<Rightarrow> Inl e
      | Inr repo_id \<Rightarrow>
          (case py_getitem_key data ''name'' of
             Inl e \<Rightarrow> Inl e
           | Inr name \<Rightarrow>
               (case data of
                  PDict d \<Rightarrow>
                    (case (case map_of d ''defaultBranch'' of None \<Rightarrow> PStr ''main'' | Some b \<Rightarrow> b) of
                       PScalar (SStr branch) \<Rightarrow>
                         Inr (PInst ''Repo''
                           [(''repo_id'', repo_id), (''name'', name),
                            (''default_branch'', PStr (removeprefix branch ''refs/heads/'')),
                            (''is_disabled'',
                             PBool (py_bool (case map_of d ''isDisabled'' of
                                               None \<Rightarrow> PBool False | Some x \<Rightarrow> x)))])
                     | _ \<Rightarrow> Inl AttributeError)
                | _ \<Rightarrow> Inl AttributeError)))"

definition Repo :: resource_class where
  "Repo = \<lparr>cls_name = ''Repo'',
     cls_fields =
       [\<lparr>fd_name = ''repo_id'', fd_default = None, fd_is_id = True, fd_editable = False,
         fd_internal_name = None\<rparr>,
        \<lparr>fd_name = ''name'', fd_default = None, fd_is_id = False, fd_editable = True,
         fd_internal_name = None\<rparr>,
        \<lparr>fd_name = ''default_branch'', fd_default = Some (PStr ''main''), fd_is_id = False,
         fd_editable = True, fd_internal_name = Some ''defaultBranch''\<rparr>,
        \<lparr>fd_name = ''is_disabled'', fd_default = Some (PBool False), fd_is_id = False,
         fd_editable = True, fd_internal_name = Some ''isDisabled''\<rparr>],
     cls_from_request_payload = Repo_from_request_payload,
     cls_get_by_id = not_implemented_get_by_id\<rparr>"

text \<open>\<^verbatim>\<open>Project\<close> (\<^verbatim>\<open>resources/projects.py\<close>, lines 13 to 23).\<close>

definition Project_from_request_payload :: "pyval \<Rightarrow> error + pyval" where
  "Project_from_request_payload data =
     (case py_getitem_key data ''id'' of
        Inl e \<Rightarrow> Inl e
      | Inr project_id \<Rightarrow>
          (case py_getitem_key data ''name'' of
             Inl e \<Rightarrow> Inl e
           | Inr name \<Rightarrow>
               (case data of
                  PDict d \<Rightarrow>
                    Inr (PInst ''Project''
                      [(''project_id'', project_id), (''name'', name),
                       (''description'',
                        case map_of d ''description'' of None \<Rightarrow> PStr [] | Some x \<Rightarrow> x),
                       (''last_update_time'',
                        case map_of d ''lastUpdateTime'' of None \<Rightarrow> PNone | Some x \<Rightarrow> x)])
                | _ \<Rightarrow> Inl AttributeError)))"

definition Project :: resource_class where
  "Project = \<lparr>cls_name = ''Project'',
     cls_fields =
       [\<lparr>fd_name = ''project_id'', fd_default = None, fd_is_id = True, fd_editable = False,
         fd_internal_name = None\<rparr>,
        \<lparr>fd_name = ''name'', fd_default = None, fd_is_id = False, fd_editable = False,
         fd_internal_name = None\<rparr>,
        \<lparr>fd_name = ''description'', fd_default = None, fd_is_id = False, fd_editable = False,
         fd_internal_name = None\<rparr>,
        \<lparr>fd_name = ''last_update_time'', fd_default = Some PNone, fd_is_id = False,
         fd_editable = False, fd_internal_name = None\<rparr>],
     cls_from_request_payload = Project_from_request_payload,
     cls_get_by_id = not_implemented_get_by_id\<rparr>"

text \<open>
  The fields of \<^verbatim>\<open>Environment\<close> (\<^verbatim>\<open>resources/environment.py\<close>, lines 20 to 31). Its payload
  mapping calls \<^verbatim>\<open>Member.from_request_payload\<close> and \<^verbatim>\<open>from_ado_date_string\<close>, which are not among
  the sources, so the mapping is a parameter.
\<close>

definition Environment :: "(pyval \<Rightarrow> error + pyval) \<Rightarrow> resource_class" where
  "Environment from_request_payload = \<lparr>cls_name = ''Environment'',
     cls_fields =
       [\<lparr>fd_name = ''environment_id'', fd_default = None, fd_is_id = True, fd_editable = False,
         fd_internal_name = None\<rparr>,
        \<lparr>fd_name = ''name'', fd_default = None, fd_is_id = False, fd_editable = True,
         fd_internal_name = None\<rparr>,
        \<lparr>fd_name = ''description'', fd_default = None, fd_is_id = False, fd_editable = True,
         fd_internal_name = None\<rparr>,
        \<lparr>fd_name = ''resources'', fd_default = None, fd_is_id = False, fd_editable = False,
         fd_internal_name = None\<rparr>,
        \<lparr>fd_name = ''created_by'', fd_default = None, fd_is_id = False, fd_editable = False,
         fd_internal_name = None\<rparr>,
        \<lparr>fd_name = ''created_on'', fd_default = None, fd_is_id = False, fd_editable = False,
         fd_internal_name = None\<rparr>,
        \<lparr>fd_name = ''modified_by'', fd_default = None, fd_is_id = False, fd_editable = False,
         fd_internal_name = None\<rparr>,
        \<lparr>fd_name = ''modified_on'', fd_default = None, fd_is_id = False, fd_editable = False,
         fd_internal_name = None\<rparr>],
     cls_from_request_payload = from_request_payload,
     cls_get_by_id = not_implemented_get_by_id\<rparr>"

section \<open>Notions used in the statements\<close>

text \<open>
  A resource instance as the dataclasses build it: its class is in the registry under its own
  name and declares exactly the instance's fields; field and class names are identifiers (no
  colon occurs in them) and no class is called \<^verbatim>\<open>datetime\<close>; every timestamp is a value a
  \<^verbatim>\<open>datetime\<close> can hold; and the same holds for the resources in its fields. Lists and dicts
  are not constrained.
\<close>

fun well_formed :: "registry \<Rightarrow> pyval \<Rightarrow> bool" where
  "well_formed reg (PInst c fs) =
     ((case reg c of
         None \<Rightarrow> False
       | Some cls \<Rightarrow> cls_name cls = c \<and> map fd_name (cls_fields cls) = map fst fs) \<and>
      distinct (map fst fs) \<and> list_all (\<lambda>a. CHR '':'' \<notin> set a) (map fst fs) \<and>
      CHR '':'' \<notin> set c \<and> c \<noteq> ''datetime'' \<and>
      list_all (\<lambda>(a, v). well_formed reg v) fs)"
| "well_formed reg (PDateTime t) = valid_datetime t"
| "well_formed reg _ = True"

text \<open>
  What decoding makes of an encoded field value: a resource and a timestamp come back as
  they were (their keys are tagged), a scalar comes back as its string, and a list or a dict
  comes back as its encoding, because the decoder looks at the keys of the top level only.
\<close>

fun reloaded :: "pyval \<Rightarrow> pyval" where
  "reloaded (PInst c fs) = PInst c (map (\<lambda>(a, v). (a, reloaded v)) fs)"
| "reloaded (PDateTime t) = PDateTime t"
| "reloaded (PScalar s) = PStr (py_str s)"
| "reloaded (PList xs) = snd (recursively_convert_to_json [] (PList xs))"
| "reloaded (PDict d) = snd (recursively_convert_to_json [] (PDict d))"

text \<open>
  The values the encoder leaves as they are: strings, and lists and dicts built from them.
\<close>

fun json_stable :: "pyval \<Rightarrow> bool" where
  "json_stable (PScalar s) = (case s of SStr _ \<Rightarrow> True | _ \<Rightarrow> False)"
| "json_stable (PList xs) = list_all json_stable xs"
| "json_stable (PDict d) = (distinct (map fst d) \<and> list_all (\<lambda>(k, v). json_stable v) d)"
| "json_stable _ = False"

text \<open>
  The field values that survive a round trip: strings, timestamps, resources whose fields
  survive, and lists and dicts built from strings.
\<close>

fun lossless :: "pyval \<Rightarrow> bool" where
  "lossless (PInst c fs) = list_all (\<lambda>(a, v). lossless v) fs"
| "lossless (PDateTime t) = True"
| "lossless v = json_stable v"

text \<open>The part of a key before its first colon, and the effect of one loop step on the dict.\<close>

definition base_name :: "string \<Rightarrow> string" where
  "base_name key = takeWhile (\<lambda>c. c \<noteq> CHR '':'') key"

definition tagged :: "pyval \<Rightarrow> bool" where
  "tagged v = (case v of PDateTime _ \<Rightarrow> True | PInst _ _ \<Rightarrow> True | _ \<Rightarrow> False)"

definition stepm :: "string \<times> pyval \<Rightarrow> (string \<rightharpoonup> pyval) \<Rightarrow> (string \<rightharpoonup> pyval)" where
  "stepm p m =
     (if tagged (snd p)
      then (m(fst (recursively_convert_to_json (fst p) (snd p)) := None))(fst p \<mapsto> reloaded (snd p))
      else m)"

definition is_permission_error :: "error \<Rightarrow> bool" where
  "is_permission_error e = (case e of InvalidPermissionsError _ \<Rightarrow> True | _ \<Rightarrow> False)"

section \<open>Example inputs\<close>

text \<open>A stub collaborator that gives the same answer to every request.\<close>

definition stub_client :: "bool \<Rightarrow> bool \<Rightarrow> http_response \<Rightarrow> ado_client" where
  "stub_client plan quiet response =
     \<lparr>ado_org = ''org'', plan_mode = plan, suppress_warnings = quiet,
      session = (\<lambda>log request. response)\<rparr>"

definition empty_world :: world where
  "empty_world = \<lparr>http_log = [], store = Map.empty, plan_list = [], printed = []\<rparr>"

definition repo1 :: pyval where
  "repo1 = PInst ''Repo'' [(''repo_id'', PStr ''1''), (''name'', PStr ''x''),
     (''default_branch'', PStr ''main''), (''is_disabled'', PBool False)]"

definition repo1_json :: pyval where
  "repo1_json = PDict [(''repo_id'', PStr ''1''), (''name'', PStr ''x''),
     (''default_branch'', PStr ''main''), (''is_disabled'', PStr ''False'')]"

definition repo1_reloaded :: pyval where
  "repo1_reloaded = PInst ''Repo'' [(''repo_id'', PStr ''1''), (''name'', PStr ''x''),
     (''default_branch'', PStr ''main''), (''is_disabled'', PStr ''False'')]"

definition world1 :: world where
  "world1 = \<lparr>http_log = [], store = [(''Repo'', PStr ''1'') \<mapsto> repo1_json], plan_list = [],
     printed = []\<rparr>"

definition created_response :: http_response where
  "created_response = \<lparr>status_code = 201, resp_text = [],
     resp_json = Some (PDict [(''id'', PStr ''42''), (''name'', PStr ''x'')])\<rparr>"

definition repo42 :: pyval where
  "repo42 = PInst ''Repo'' [(''repo_id'', PStr ''42''), (''name'', PStr ''x''),
     (''default_branch'', PStr ''main''), (''is_disabled'', PBool False)]"

definition denied_response :: http_response where
  "denied_response = \<lparr>status_code = 403, resp_text = ''denied'',
     resp_json = Some (PDict [(''message'', PStr ''no access'')])\<rparr>"

definition example_registry :: registry where
  "example_registry =
     [''Repo'' \<mapsto> Repo, ''Project'' \<mapsto> Project,
      ''Environment'' \<mapsto> Environment (\<lambda>data. Inl NotImplementedError)]"

definition august_first :: datetime where
  "august_first = \<lparr>dt_year = 2021, dt_month = 8, dt_day = 1, dt_hour = 0, dt_minute = 0,
     dt_second = 0, dt_microsecond = 0\<rparr>"

definition project1 :: pyval where
  "project1 = PInst ''Project'' [(''project_id'', PStr ''p1''), (''name'', PStr ''proj''),
     (''description'', PStr ''demo''), (''last_update_time'', PDateTime august_first)]"

text \<open>
  An environment with a list field, two timestamps, a nested resource and a mapping. Python
  does not check the annotations of a dataclass, so any resource can stand in \<^verbatim>\<open>created_by\<close>.
\<close>

definition environment1_fields :: "(string \<times> pyval) list" where
  "environment1_fields =
     [(''environment_id'', PStr ''7''), (''name'', PStr ''prod''), (''description'', PStr ''live''),
      (''resources'', PList [PDict [(''kind'', PStr ''vm'')], PDict []]),
      (''created_by'', project1), (''created_on'', PDateTime august_first),
      (''modified_by'', PDict [(''name'', PStr ''someone'')]),
      (''modified_on'', PDateTime (august_first\<lparr>dt_microsecond := 120\<rparr>))]"

section \<open>Facts about the example inputs\<close>

lemma http_send_stub:
  "http_send (stub_client plan quiet response) req w =
     (response, w\<lparr>http_log := http_log w @ [req]\<rparr>)"
  by (simp add: http_send_def stub_client_def)

lemma stub_client_sel:
  "plan_mode (stub_client plan quiet response) = plan"
  "suppress_warnings (stub_client plan quiet response) = quiet"
  "ado_org (stub_client plan quiet response) = ''org''"
  by (simp_all add: stub_client_def)

lemma Repo_sel:
  "cls_name Repo = ''Repo''"
  "cls_from_request_payload Repo = Repo_from_request_payload"
  "cls_get_by_id Repo = not_implemented_get_by_id"
  by (simp_all add: Repo_def)

lemma Repo_internal_names:
  "get_internal_field_names Repo =
     [(''name'', ''name''), (''default_branch'', ''defaultBranch''), (''is_disabled'', ''isDisabled'')]"
  by (simp add: get_internal_field_names_def Repo_def py_dict_def)

lemma extract_id_Repo: "extract_id Repo (PInst c ((''repo_id'', v) # fs)) = Inr v"
  by (simp add: extract_id_def Repo_def)

section \<open>Fetching one resource\<close>

text \<open>
  C6. \<^verbatim>\<open>_get_by_url\<close>: when the GET is answered with status 404 the call raises
  \<^verbatim>\<open>ResourceNotFound\<close> with the message "No <class name> found with that identifier!"; when it
  is answered with any other status of 300 or more it raises \<^verbatim>\<open>ValueError\<close> with the message
  "Error getting <class name> by id: " followed by the response body.
\<close>

theorem get_by_url_error_classification:
  assumes "http_send cl \<lparr>req_method = GET, req_url = full_url cl url, req_json = None\<rparr> w
             = (request, w1)"
  shows "(status_code request = 404 \<longrightarrow>
            smr_get_by_url cls cl url w =
              (Inl (ResourceNotFound (''No '' @ cls_name cls @ '' found with that identifier!'')),
               w1)) \<and>
         (status_code request \<ge> 300 \<and> status_code request \<noteq> 404 \<longrightarrow>
            smr_get_by_url cls cl url w =
              (Inl (ValueError (''Error getting '' @ cls_name cls @ '' by id: '' @
                      resp_text request)), w1))"
  using assms by (simp add: smr_get_by_url_def)

theorem get_by_url_error_classification_witness:
  "fst (smr_get_by_url Repo
          (stub_client False False \<lparr>status_code = 404, resp_text = ''gone'', resp_json = None\<rparr>)
          ''/p/_apis/git/repositories/1'' empty_world)
     = Inl (ResourceNotFound ''No Repo found with that identifier!'') \<and>
   fst (smr_get_by_url Repo
          (stub_client False False \<lparr>status_code = 500, resp_text = ''boom'', resp_json = None\<rparr>)
          ''/p/_apis/git/repositories/1'' empty_world)
     = Inl (ValueError ''Error getting Repo by id: boom'')"
proof -
  have h: "http_send (stub_client False False r)
       \<lparr>req_method = GET,
        req_url = full_url (stub_client False False r) ''/p/_apis/git/repositories/1'',
        req_json = None\<rparr> empty_world =
     (r, empty_world\<lparr>http_log := http_log empty_world @
        [\<lparr>req_method = GET,
          req_url = full_url (stub_client False False r) ''/p/_apis/git/repositories/1'',
          req_json = None\<rparr>]\<rparr>)" for r
    by (rule http_send_stub)
  note t = get_by_url_error_classification [OF h, where cls = Repo]
  from t [of "\<lparr>status_code = 404, resp_text = ''gone'', resp_json = None\<rparr>"]
    t [of "\<lparr>status_code = 500, resp_text = ''boom'', resp_json = None\<rparr>"]
  show ?thesis by (simp add: Repo_sel)
qed

text \<open>
  C9. \<^verbatim>\<open>_get_by_url\<close>: when the GET is answered with status 200 and the JSON body
  \<^verbatim>\<open>{"value": []}\<close>, the call takes element 0 of the empty list and ends in \<^verbatim>\<open>IndexError\<close>; it
  does not raise \<^verbatim>\<open>ResourceNotFound\<close> and returns no resource.
\<close>

theorem get_by_url_empty_value_list:
  assumes "http_send cl \<lparr>req_method = GET, req_url = full_url cl url, req_json = None\<rparr> w
             = (request, w1)"
    and "status_code request = 200"
    and "resp_json request = Some (PDict [(''value'', PList [])])"
  shows "smr_get_by_url cls cl url w = (Inl IndexError, w1)"
  using assms
  by (simp add: smr_get_by_url_def payload_of_response_def py_in_def py_getitem_key_def
      py_getitem0_def)

theorem get_by_url_empty_value_list_witness:
  "status_code \<lparr>status_code = 200, resp_text = [],
      resp_json = Some (PDict [(''value'', PList [])])\<rparr> = 200 \<and>
   fst (smr_get_by_url Repo
     (stub_client False False
        \<lparr>status_code = 200, resp_text = [], resp_json = Some (PDict [(''value'', PList [])])\<rparr>)
     ''/p/_apis/git/repositories/1'' empty_world) = Inl IndexError"
proof -
  let ?r = "\<lparr>status_code = 200, resp_text = [], resp_json = Some (PDict [(''value'', PList [])])\<rparr>"
  have a1: "http_send (stub_client False False ?r)
      \<lparr>req_method = GET,
       req_url = full_url (stub_client False False ?r) ''/p/_apis/git/repositories/1'',
       req_json = None\<rparr> empty_world =
     (?r, empty_world\<lparr>http_log := http_log empty_world @
       [\<lparr>req_method = GET,
         req_url = full_url (stub_client False False ?r) ''/p/_apis/git/repositories/1'',
         req_json = None\<rparr>]\<rparr>)"
    by (rule http_send_stub)
  have a2: "status_code ?r = 200" by simp
  have a3: "resp_json ?r = Some (PDict [(''value'', PList [])])" by simp
  from get_by_url_empty_value_list [OF a1 a2 a3, where cls = Repo]
  show ?thesis by simp
qed

section \<open>The codec: encoding followed by decoding\<close>

subsection \<open>Timestamps\<close>

lemma digit_val_digit_char: "n < 10 \<Longrightarrow> digit_val (digit_char n) = Some n"
  by (simp add: digit_val_def digit_char_def Let_def)

lemma parse_digits_append:
  "parse_digits a (xs @ ys) = (case parse_digits a xs of None \<Rightarrow> None | Some b \<Rightarrow> parse_digits b ys)"
  by (induction xs arbitrary: a) (auto split: option.splits)

lemma parse_digits_zpad: "n < 10 ^ w \<Longrightarrow> parse_digits a (zpad w n) = Some (a * 10 ^ w + n)"
proof (induction w arbitrary: n a)
  case 0
  then show ?case by simp
next
  case (Suc w)
  have lt: "n div 10 < 10 ^ w" using Suc.prems by (simp add: less_mult_imp_div_less)
  have "parse_digits a (zpad (Suc w) n) = Some (10 * (a * 10 ^ w + n div 10) + n mod 10)"
    by (simp add: parse_digits_append Suc.IH [OF lt] digit_val_digit_char)
  then show ?case by (simp add: algebra_simps)
qed

lemma length_zpad [simp]: "length (zpad w n) = w"
  by (induction w arbitrary: n) auto

lemma mk_datetime_valid:
  "valid_datetime t \<Longrightarrow>
   mk_datetime (dt_year t) (dt_month t) (dt_day t) (dt_hour t) (dt_minute t) (dt_second t)
     (dt_microsecond t) = Some t"
  by (cases t) (simp add: mk_datetime_def Let_def)

lemma fromisoformat_isoformat:
  assumes "valid_datetime t"
  shows "fromisoformat_str (isoformat t) = Some t"
proof -
  from assms have b: "dt_year t < 10 ^ 4" "dt_month t < 10 ^ 2" "dt_day t < 10 ^ 2"
    "dt_hour t < 10 ^ 2" "dt_minute t < 10 ^ 2" "dt_second t < 10 ^ 2" "dt_microsecond t < 10 ^ 6"
    by (auto simp: valid_datetime_def days_in_month_def split: if_splits)
  note pz = b [THEN parse_digits_zpad]
  let ?s = "isoformat t"
  have c: "(length ?s = 19 \<or> (length ?s = 26 \<and> ?s ! 19 = CHR ''.'')) \<and>
         ?s ! 4 = CHR ''-'' \<and> ?s ! 7 = CHR ''-'' \<and> ?s ! 13 = CHR '':'' \<and> ?s ! 16 = CHR '':''"
    by (simp add: isoformat_def nth_append del: zpad.simps)
  have p: "parse_digits 0 (substr ?s 0 4) = Some (dt_year t)"
    "parse_digits 0 (substr ?s 5 7) = Some (dt_month t)"
    "parse_digits 0 (substr ?s 8 10) = Some (dt_day t)"
    "parse_digits 0 (substr ?s 11 13) = Some (dt_hour t)"
    "parse_digits 0 (substr ?s 14 16) = Some (dt_minute t)"
    "parse_digits 0 (substr ?s 17 19) = Some (dt_second t)"
    "parse_digits 0 (substr ?s 20 26) = Some (dt_microsecond t)"
    by (simp_all add: isoformat_def substr_def pz del: zpad.simps)
  show ?thesis
    unfolding fromisoformat_str_def using c by (simp add: p mk_datetime_valid [OF assms])
qed



declare to_json_fields.simps [simp del]

text \<open>\<^verbatim>\<open>from_json\<close> is \<^verbatim>\<open>cls(**recursively_convert_from_json(data))\<close>.\<close>

lemma from_json_eq:
  "from_json reg cls (PDict d) =
     (case recursively_convert_from_json reg d of
        Inl e \<Rightarrow> Inl e
      | Inr kwargs \<Rightarrow> construct cls kwargs)"
  by (simp add: recursively_convert_from_json_def)

subsection \<open>Keys and their tags\<close>

lemma has_dc_no_colon: "CHR '':'' \<notin> set n \<Longrightarrow> \<not> has_dc n"
  by (induction n rule: has_dc.induct) auto

lemma endswith_no_colon:
  assumes "CHR '':'' \<notin> set n"
  shows "\<not> endswith n ''::datetime''"
proof
  assume "endswith n ''::datetime''"
  then have "drop (length n - length ''::datetime'') n = ''::datetime''"
    by (simp add: endswith_def)
  then have "CHR '':'' \<in> set (drop (length n - length ''::datetime'') n)" by simp
  then have "CHR '':'' \<in> set n" by (rule in_set_dropD)
  with assms show False by simp
qed

lemma has_dc_tag: "has_dc (n @ CHR '':'' # CHR '':'' # c)"
  by (induction n rule: has_dc.induct) auto

lemma split_dc_acc_no_colon: "CHR '':'' \<notin> set c \<Longrightarrow> split_dc_acc acc c = [acc @ c]"
  by (induction acc c rule: split_dc_acc.induct) auto

lemma split_dc_acc_tag:
  "CHR '':'' \<notin> set n \<Longrightarrow> CHR '':'' \<notin> set c \<Longrightarrow>
   split_dc_acc acc (n @ CHR '':'' # CHR '':'' # c) = [acc @ n, c]"
proof (induction n arbitrary: acc)
  case Nil
  then show ?case by (simp add: split_dc_acc_no_colon)
next
  case (Cons x n)
  then show ?case by (cases n) auto
qed

lemma split_dc_tag:
  "CHR '':'' \<notin> set n \<Longrightarrow> CHR '':'' \<notin> set c \<Longrightarrow> split_dc (n @ CHR '':'' # CHR '':'' # c) = [n, c]"
  using split_dc_acc_tag [of n c "[]"] by (simp add: split_dc_def)

lemma endswith_tag: "endswith (n @ ''::datetime'') ''::datetime''"
  by (simp add: endswith_def)

lemma base_name_no_colon: "CHR '':'' \<notin> set n \<Longrightarrow> base_name n = n"
  by (auto simp: base_name_def)

lemma base_name_tag: "CHR '':'' \<notin> set n \<Longrightarrow> base_name (n @ CHR '':'' # c) = n"
  by (auto simp: base_name_def takeWhile_append)

lemma base_name_key:
  "CHR '':'' \<notin> set n \<Longrightarrow> base_name (fst (recursively_convert_to_json n v)) = n"
  by (cases v) (simp_all add: base_name_no_colon base_name_tag)

lemma value_independent_of_name:
  "snd (recursively_convert_to_json n v) = snd (recursively_convert_to_json n' v)"
  by (induction v arbitrary: n n') auto

lemma reloaded_untagged:
  "\<not> tagged v \<Longrightarrow> recursively_convert_to_json a v = (a, reloaded v)"
  using value_independent_of_name [of a _ "[]"]
  by (cases v) (auto simp: tagged_def)

subsection \<open>Dicts with distinct keys\<close>

lemma update_fresh: "k \<notin> fst ` set d \<Longrightarrow> AList.update k v d = d @ [(k, v)]"
  by (induction d) auto

lemma foldl_update_distinct:
  "distinct (map fst (d @ ps)) \<Longrightarrow> foldl (\<lambda>d (k, v). AList.update k v d) d ps = d @ ps"
proof (induction ps arbitrary: d)
  case Nil
  then show ?case by simp
next
  case (Cons p ps)
  obtain k v where p: "p = (k, v)" by (cases p)
  from Cons.prems have fresh: "k \<notin> fst ` set d" by (auto simp: p)
  from Cons.prems have "distinct (map fst ((d @ [(k, v)]) @ ps))" by (simp add: p)
  from Cons.IH [OF this] show ?case by (simp add: p update_fresh [OF fresh])
qed

lemma py_dict_distinct: "distinct (map fst ps) \<Longrightarrow> py_dict ps = ps"
  using foldl_update_distinct [of "[]" ps] by (simp add: py_dict_def)

lemma keys_base_names:
  assumes "list_all (\<lambda>a. CHR '':'' \<notin> set a) (map fst fs)"
  shows "map base_name (map fst (map (\<lambda>(a, v). recursively_convert_to_json a v) fs)) = map fst fs"
  using assms by (induction fs) (auto simp: base_name_key simp del: recursively_convert_to_json.simps)

lemma keys_distinct:
  assumes "list_all (\<lambda>a. CHR '':'' \<notin> set a) (map fst fs)" and "distinct (map fst fs)"
  shows "distinct (map fst (map (\<lambda>(a, v). recursively_convert_to_json a v) fs))"
proof -
  have "distinct (map base_name (map fst (map (\<lambda>(a, v). recursively_convert_to_json a v) fs)))"
    using assms by (simp only: keys_base_names)
  then show ?thesis by (simp only: distinct_map)
qed

lemma to_json_fields_map:
  assumes "list_all (\<lambda>a. CHR '':'' \<notin> set a) (map fst fs)" and "distinct (map fst fs)"
  shows "to_json_fields fs = map (\<lambda>(a, v). recursively_convert_to_json a v) fs"
  by (simp only: to_json_fields.simps py_dict_distinct [OF keys_distinct [OF assms]])


subsection \<open>The decoding loop\<close>

lemma key_not_in_rest:
  assumes nc: "list_all (\<lambda>a. CHR '':'' \<notin> set a) (map fst fs)"
    and a: "base_name k \<notin> set (map fst fs)"
  shows "map_of (map (\<lambda>(a, v). recursively_convert_to_json a v) fs) k = None"
proof -
  have "k \<notin> set (map fst (map (\<lambda>(a, v). recursively_convert_to_json a v) fs))"
  proof
    assume "k \<in> set (map fst (map (\<lambda>(a, v). recursively_convert_to_json a v) fs))"
    then have "base_name k \<in> set (map base_name (map fst (map (\<lambda>(a, v). recursively_convert_to_json a v) fs)))"
      by (simp only: set_map) (rule imageI)
    with a show False by (simp only: keys_base_names [OF nc])
  qed
  then show ?thesis by (simp only: map_of_eq_None_iff set_map not_False_eq_True)
qed

lemma fold_stepm:
  assumes "list_all (\<lambda>a. CHR '':'' \<notin> set a) (map fst fs)" and "distinct (map fst fs)"
    and "\<forall>k \<in> dom m. CHR '':'' \<notin> set k"
  shows "fold stepm fs (m ++ map_of (map (\<lambda>(a, v). recursively_convert_to_json a v) fs)) =
         m ++ map_of (map (\<lambda>(a, v). (a, reloaded v)) fs)"
  using assms
proof (induction fs arbitrary: m)
  case Nil
  then show ?case by simp
next
  case (Cons p fs)
  obtain a v where p: "p = (a, v)" by (cases p)
  let ?enc = "\<lambda>(a, v). recursively_convert_to_json a v"
  let ?key = "fst (recursively_convert_to_json a v)"
  from Cons.prems have nc: "list_all (\<lambda>a. CHR '':'' \<notin> set a) (map fst fs)"
    and di: "distinct (map fst fs)" and a: "CHR '':'' \<notin> set a" and fresh: "a \<notin> set (map fst fs)"
    by (auto simp: p)
  have bk: "base_name ?key = a" by (rule base_name_key [OF a])
  have k_rest: "map_of (map ?enc fs) ?key = None"
    by (rule key_not_in_rest [OF nc]) (simp only: bk fresh not_False_eq_True)
  have a_rest: "map_of (map ?enc fs) a = None"
    by (rule key_not_in_rest [OF nc]) (simp only: base_name_no_colon [OF a] fresh not_False_eq_True)
  have dom': "\<forall>k \<in> dom (m(a \<mapsto> reloaded v)). CHR '':'' \<notin> set k"
    using Cons.prems(3) a by auto
  have start: "stepm p (m ++ map_of (map ?enc (p # fs))) = m(a \<mapsto> reloaded v) ++ map_of (map ?enc fs)"
  proof (cases "tagged v")
    case True
    then have "CHR '':'' \<in> set ?key" by (cases v) (auto simp: tagged_def)
    with Cons.prems(3) have "m ?key = None" by (cases "m ?key") auto
    with True k_rest a_rest show ?thesis
      by (auto simp: stepm_def p map_add_def fun_eq_iff simp del: recursively_convert_to_json.simps
          split: option.splits)
  next
    case False
    then have "recursively_convert_to_json a v = (a, reloaded v)"
      by (rule reloaded_untagged)
    with False a_rest show ?thesis
      by (auto simp: stepm_def p map_add_def fun_eq_iff simp del: recursively_convert_to_json.simps
          split: option.splits)
  qed
  have "fold stepm (p # fs) (m ++ map_of (map ?enc (p # fs))) =
        fold stepm fs (m(a \<mapsto> reloaded v) ++ map_of (map ?enc fs))"
    by (simp only: fold_simps start)
  also have "\<dots> = m(a \<mapsto> reloaded v) ++ map_of (map (\<lambda>(a, v). (a, reloaded v)) fs)"
    by (rule Cons.IH [OF nc di dom'])
  also have "\<dots> = m ++ map_of (map (\<lambda>(a, v). (a, reloaded v)) (p # fs))"
  proof -
    have "map fst (map (\<lambda>(a, v). (a, reloaded v)) fs) = map fst fs" by (induction fs) auto
    with fresh have "a \<notin> fst ` set (map (\<lambda>(a, v). (a, reloaded v)) fs)"
      by (metis set_map)
    then have "map_of (map (\<lambda>(a, v). (a, reloaded v)) fs) a = None"
      by (simp only: map_of_eq_None_iff not_False_eq_True)
    then show ?thesis
      by (auto simp: p map_add_def fun_eq_iff split: option.splits)
  qed
  finally show ?case .
qed


lemma split_dc_datetime:
  "CHR '':'' \<notin> set a \<Longrightarrow> split_dc (a @ ''::datetime'') = [a, ''datetime'']"
  using split_dc_tag [of a "''datetime''"] by simp

lemma from_json_loop_decodes:
  assumes "list_all (\<lambda>a. CHR '':'' \<notin> set a) (map fst fs)"
    and "list_all (\<lambda>(a, v). well_formed reg v \<and>
           (\<forall>c gs cls. v = PInst c gs \<longrightarrow> reg c = Some cls \<longrightarrow>
              from_json reg cls (PDict (to_json_fields gs)) = Inr (reloaded v))) fs"
  shows "\<exists>copy'. from_json_loop reg (map (\<lambda>(a, v). recursively_convert_to_json a v) fs) data_copy
            = Inr copy' \<and> map_of copy' = fold stepm fs (map_of data_copy)"
  using assms
proof (induction fs arbitrary: data_copy)
  case Nil
  then show ?case by simp
next
  case (Cons p fs)
  obtain a v where p: "p = (a, v)" by (cases p)
  from Cons.prems have nc: "list_all (\<lambda>a. CHR '':'' \<notin> set a) (map fst fs)"
    and a: "CHR '':'' \<notin> set a" and wf: "well_formed reg v"
    and rest: "list_all (\<lambda>(a, v). well_formed reg v \<and>
           (\<forall>c gs cls. v = PInst c gs \<longrightarrow> reg c = Some cls \<longrightarrow>
              from_json reg cls (PDict (to_json_fields gs)) = Inr (reloaded v))) fs"
    and ih: "\<forall>c gs cls. v = PInst c gs \<longrightarrow> reg c = Some cls \<longrightarrow>
              from_json reg cls (PDict (to_json_fields gs)) = Inr (reloaded v)"
    by (auto simp: p)
  note IH = Cons.IH [OF nc rest]
  show ?case
  proof (cases v)
    case (PScalar s)
    with IH [of data_copy] a show ?thesis
      by (simp add: p has_dc_no_colon endswith_no_colon stepm_def tagged_def)
  next
    case (PList xs)
    with IH [of data_copy] a show ?thesis
      by (simp add: p has_dc_no_colon endswith_no_colon stepm_def tagged_def)
  next
    case (PDict d)
    with IH [of data_copy] a show ?thesis
      by (simp add: p has_dc_no_colon endswith_no_colon stepm_def tagged_def)
  next
    case (PDateTime t)
    let ?key = "a @ ''::datetime''"
    let ?copy = "AList.update a (PDateTime t) (AList.delete ?key data_copy)"
    from wf PDateTime have "fromisoformat (PStr (isoformat t)) = Inr t"
      by (simp add: fromisoformat_def fromisoformat_isoformat)
    then have "from_json_loop reg (map (\<lambda>(a, v). recursively_convert_to_json a v) (p # fs)) data_copy
        = from_json_loop reg (map (\<lambda>(a, v). recursively_convert_to_json a v) fs) ?copy"
      using a has_dc_tag [of a "''datetime''"] endswith_tag [of a]
      by (simp add: p PDateTime split_dc_datetime)
    moreover have "map_of ?copy = stepm p (map_of data_copy)"
      by (simp add: p PDateTime stepm_def tagged_def update_conv' delete_conv')
    ultimately show ?thesis using IH [of ?copy] by simp
  next
    case (PInst c gs)
    let ?key = "a @ ''::'' @ c"
    from wf PInst obtain cls where cls: "reg c = Some cls" and c: "CHR '':'' \<notin> set c"
      and nd: "c \<noteq> ''datetime''"
      by (auto split: option.splits)
    let ?copy = "AList.update a (reloaded v) (AList.delete ?key data_copy)"
    from ih PInst cls have dec: "from_json reg cls (PDict (to_json_fields gs)) = Inr (reloaded v)"
      by simp
    have "from_json_loop reg (map (\<lambda>(a, v). recursively_convert_to_json a v) (p # fs)) data_copy
        = from_json_loop reg (map (\<lambda>(a, v). recursively_convert_to_json a v) fs) ?copy"
      using has_dc_tag [of a c] nd
      by (simp add: p PInst split_dc_tag [OF a c] cls dec del: reloaded.simps from_json.simps)
    moreover have "map_of ?copy = stepm p (map_of data_copy)"
      by (simp add: p PInst stepm_def tagged_def update_conv' delete_conv' del: reloaded.simps)
    ultimately show ?thesis using IH [of ?copy] by simp
  qed
qed


subsection \<open>The constructor call\<close>

lemma those_map_Some: "those (map (\<lambda>x. Some (g x)) xs) = Some (map g xs)"
  by (induction xs) auto

lemma construct_from_map:
  assumes names: "map fd_name (cls_fields cls) = map fst fs"
    and di: "distinct (map fst fs)"
    and kw: "map_of kwargs = map_of (map (\<lambda>(a, v). (a, f v)) fs)"
  shows "construct cls kwargs = Inr (PInst (cls_name cls) (map (\<lambda>(a, v). (a, f v)) fs))"
proof -
  let ?xs = "map (\<lambda>(a, v). (a, f v)) fs"
  have fst_xs: "map fst ?xs = map fst fs" by (induction fs) auto
  have "fst ` set kwargs = dom (map_of kwargs)" by (simp add: dom_map_of_conv_image_fst)
  also have "\<dots> = fst ` set ?xs" by (simp only: kw dom_map_of_conv_image_fst)
  also have "\<dots> = set (map fst fs)" using fst_xs by (metis set_map)
  finally have keys: "set (map fst kwargs) = set (map fd_name (cls_fields cls))"
    by (simp only: names set_map)
  have look: "map_of kwargs (fst p) = Some (f (snd p))" if "p \<in> set fs" for p
  proof -
    have "(fst p, f (snd p)) = (\<lambda>(a, v). (a, f v)) p" by (cases p) simp
    with that have "(fst p, f (snd p)) \<in> set ?xs" by (simp only: set_map image_eqI)
    moreover from di have "distinct (map fst ?xs)" by (simp only: fst_xs)
    ultimately show ?thesis by (simp only: kw map_of_is_SomeI)
  qed
  have "map (\<lambda>fd. case map_of kwargs (fd_name fd) of Some v \<Rightarrow> Some v | None \<Rightarrow> fd_default fd)
          (cls_fields cls) = map (\<lambda>p. Some (f (snd p))) fs"
  proof (rule nth_equalityI)
    show "length (map (\<lambda>fd. case map_of kwargs (fd_name fd) of Some v \<Rightarrow> Some v | None \<Rightarrow> fd_default fd)
          (cls_fields cls)) = length (map (\<lambda>p. Some (f (snd p))) fs)"
      using names by (metis length_map)
  next
    fix i
    assume "i < length (map (\<lambda>fd. case map_of kwargs (fd_name fd) of Some v \<Rightarrow> Some v | None \<Rightarrow> fd_default fd)
          (cls_fields cls))"
    then have i: "i < length (cls_fields cls)" by simp
    then have i': "i < length fs" using names by (metis length_map)
    from i i' names have "fd_name (cls_fields cls ! i) = fst (fs ! i)" by (metis nth_map)
    with look [of "fs ! i"] i i' show "map (\<lambda>fd. case map_of kwargs (fd_name fd) of Some v \<Rightarrow> Some v | None \<Rightarrow> fd_default fd)
          (cls_fields cls) ! i = map (\<lambda>p. Some (f (snd p))) fs ! i"
      by simp
  qed
  then have "those (map (\<lambda>fd. case map_of kwargs (fd_name fd) of Some v \<Rightarrow> Some v | None \<Rightarrow> fd_default fd)
          (cls_fields cls)) = Some (map (\<lambda>p. f (snd p)) fs)"
    by (simp only: those_map_Some)
  moreover have "zip (map fst fs) (map (\<lambda>p. f (snd p)) fs) = ?xs"
    by (induction fs) auto
  ultimately show ?thesis
    using keys by (simp add: construct_def names)
qed

subsection \<open>Decoding an encoded instance\<close>

lemma from_json_to_json_fields:
  "well_formed reg v \<Longrightarrow> v = PInst c fs \<Longrightarrow> reg c = Some cls \<Longrightarrow>
   from_json reg cls (PDict (to_json_fields fs)) = Inr (reloaded v)"
proof (induction v arbitrary: c fs cls)
  case (PInst c' fs')
  then have eq: "c' = c" "fs' = fs" by simp_all
  from PInst.prems have nc: "list_all (\<lambda>a. CHR '':'' \<notin> set a) (map fst fs)"
    and di: "distinct (map fst fs)" and names: "map fd_name (cls_fields cls) = map fst fs"
    and cn: "cls_name cls = c" and wfs: "list_all (\<lambda>(a, v). well_formed reg v) fs"
    by (auto simp: eq)
  let ?enc = "map (\<lambda>(a, v). recursively_convert_to_json a v) fs"
  have enc: "to_json_fields fs = ?enc" by (rule to_json_fields_map [OF nc di])
  have "list_all (\<lambda>(a, v). well_formed reg v \<and>
           (\<forall>c gs cls. v = PInst c gs \<longrightarrow> reg c = Some cls \<longrightarrow>
              from_json reg cls (PDict (to_json_fields gs)) = Inr (reloaded v))) fs"
    unfolding list_all_iff
  proof (clarify, intro conjI allI impI)
    fix a v assume av: "(a, v) \<in> set fs"
    with wfs show wf: "well_formed reg v" by (auto simp: list_all_iff)
    fix d gs cl assume "v = PInst d gs" "reg d = Some cl"
    with PInst.IH [of "(a, v)" v d gs cl] av wf
    show "from_json reg cl (PDict (to_json_fields gs)) = Inr (reloaded v)"
      by (simp add: eq)
  qed
  from from_json_loop_decodes [OF nc this, of ?enc]
  obtain copy' where loop: "from_json_loop reg ?enc ?enc = Inr copy'"
    and m: "map_of copy' = fold stepm fs (map_of ?enc)" by blast
  have "fold stepm fs (Map.empty ++ map_of ?enc) = Map.empty ++ map_of (map (\<lambda>(a, v). (a, reloaded v)) fs)"
    by (rule fold_stepm [OF nc di]) simp
  with m have "map_of copy' = map_of (map (\<lambda>(a, v). (a, reloaded v)) fs)" by simp
  from construct_from_map [OF names di this]
  show ?case using loop by (simp add: enc cn eq PInst.prems(2))
qed simp_all


subsection \<open>Values that the encoder leaves unchanged\<close>

lemma json_stable_value: "json_stable v \<Longrightarrow> snd (recursively_convert_to_json n v) = v"
proof (induction v arbitrary: n)
  case (PScalar s)
  then show ?case by (cases s) auto
next
  case (PList xs)
  then have "map (\<lambda>v. snd (recursively_convert_to_json n v)) xs = xs"
    by (intro map_idI) (auto simp: list_all_iff)
  then show ?case by simp
next
  case (PDict d)
  then have "map (\<lambda>(key, v). (key, snd (recursively_convert_to_json [] v))) d = d"
    by (intro map_idI) (auto simp: list_all_iff)
  moreover from PDict.prems have "distinct (map fst d)" by simp
  ultimately show ?case by (simp add: py_dict_distinct)
qed simp_all

lemma lossless_reloaded: "lossless v \<Longrightarrow> reloaded v = v"
proof (induction v)
  case (PInst c fs)
  then have "map (\<lambda>(a, v). (a, reloaded v)) fs = fs"
    by (intro map_idI) (auto simp: list_all_iff)
  then show ?case by simp
next
  case (PList xs)
  then show ?case using json_stable_value [of "PList xs" "[]"] by simp
next
  case (PDict d)
  then show ?case using json_stable_value [of "PDict d" "[]"] by simp
next
  case (PScalar s)
  then show ?case by (cases s) auto
qed simp_all

lemma to_json_fields_lookup:
  assumes "list_all (\<lambda>a. CHR '':'' \<notin> set a) (map fst fs)" and "distinct (map fst fs)"
    and "(a, PScalar s) \<in> set fs"
  shows "map_of (to_json_fields fs) a = Some (PStr (py_str s))"
proof -
  have "recursively_convert_to_json a (PScalar s)
          \<in> set (map (\<lambda>(a, v). recursively_convert_to_json a v) fs)"
    using assms(3) by (force simp del: recursively_convert_to_json.simps)
  then have "(a, PStr (py_str s)) \<in> set (map (\<lambda>(a, v). recursively_convert_to_json a v) fs)"
    by simp
  with keys_distinct [OF assms(1,2)] show ?thesis
    by (simp only: to_json_fields_map [OF assms(1,2)] map_of_is_SomeI)
qed

section \<open>The round trip through the state file\<close>

text \<open>
  C1, as the code has it. For every well-formed instance \<open>r\<close> of a registered resource class
  whose fields hold only strings, timestamps, nested resources with such fields, and lists
  and mappings built from strings: \<^verbatim>\<open>to_json\<close> succeeds on \<open>r\<close>, and \<^verbatim>\<open>from_json\<close> of the result
  is \<open>r\<close> itself, field by field.
\<close>

theorem roundtrip_lossless:
  assumes "well_formed reg r" and "lossless r" and "r = PInst c fs" and "reg c = Some cls"
  shows "to_json r = Inr (PDict (to_json_fields fs)) \<and>
         from_json reg cls (PDict (to_json_fields fs)) = Inr r"
  using from_json_to_json_fields [OF assms(1,3,4)] lossless_reloaded [OF assms(2)] assms(3)
  by simp

theorem roundtrip_lossless_witness:
  "well_formed example_registry (PInst ''Environment'' environment1_fields) \<and>
   lossless (PInst ''Environment'' environment1_fields) \<and>
   from_json example_registry (Environment (\<lambda>data. Inl NotImplementedError))
     (PDict (to_json_fields environment1_fields)) = Inr (PInst ''Environment'' environment1_fields)"
proof -
  have v: "valid_datetime august_first" "valid_datetime (august_first\<lparr>dt_microsecond := 120\<rparr>)"
    by (simp_all add: valid_datetime_def august_first_def days_in_month_def)
  have wf: "well_formed example_registry (PInst ''Environment'' environment1_fields)"
    by (simp add: example_registry_def environment1_fields_def Environment_def Project_def
        project1_def v)
  have ll: "lossless (PInst ''Environment'' environment1_fields)"
    by (simp add: environment1_fields_def project1_def)
  have r: "example_registry ''Environment'' = Some (Environment (\<lambda>data. Inl NotImplementedError))"
    by (simp add: example_registry_def)
  from roundtrip_lossless [OF wf ll refl r] wf ll show ?thesis by simp
qed

text \<open>
  C1 as stated fails on a boolean field. The repository \<^verbatim>\<open>Repo("1", "x", "main", False)\<close> is
  encoded with \<^verbatim>\<open>"is_disabled": "False"\<close>, and decoding that gives a \<^verbatim>\<open>Repo\<close> whose
  \<^verbatim>\<open>is_disabled\<close> is the string \<^verbatim>\<open>"False"\<close>, which differs from the instance encoded.
\<close>

theorem roundtrip_loses_boolean:
  "to_json repo1 = Inr repo1_json \<and>
   from_json example_registry Repo repo1_json = Inr repo1_reloaded \<and>
   repo1_reloaded \<noteq> repo1"
  by (simp add: repo1_def repo1_json_def repo1_reloaded_def to_json_fields.simps py_dict_def
      split_dc_def endswith_def construct_def Repo_def)

text \<open>
  C8. A field value that is not a dict, a list, a datetime or a resource is encoded as
  \<^verbatim>\<open>str(value)\<close> under the unchanged key, so \<^verbatim>\<open>False\<close> is stored as \<^verbatim>\<open>"False"\<close> and \<^verbatim>\<open>None\<close> as
  \<^verbatim>\<open>"None"\<close>. For a well-formed instance with such a field \<open>a\<close>, the encoded instance holds
  the string under \<open>a\<close>, and decoding it gives an instance whose field \<open>a\<close> is that string,
  not the original value.
\<close>

theorem scalars_stored_as_strings:
  assumes "well_formed reg (PInst c fs)" and "reg c = Some cls" and "(a, PScalar s) \<in> set fs"
  shows "recursively_convert_to_json n (PScalar s) = (n, PStr (py_str s)) \<and>
         py_str (SBool False) = ''False'' \<and> py_str SNone = ''None'' \<and>
         map_of (to_json_fields fs) a = Some (PStr (py_str s)) \<and>
         (\<exists>fs'. from_json reg cls (PDict (to_json_fields fs)) = Inr (PInst c fs') \<and>
                map_of fs' a = Some (PStr (py_str s)))"
proof -
  from assms(1) have nc: "list_all (\<lambda>a. CHR '':'' \<notin> set a) (map fst fs)"
    and di: "distinct (map fst fs)"
    by simp_all
  let ?fs' = "map (\<lambda>(a, v). (a, reloaded v)) fs"
  have dec: "from_json reg cls (PDict (to_json_fields fs)) = Inr (PInst c ?fs')"
    using from_json_to_json_fields [OF assms(1) refl assms(2)] by simp
  have "map fst ?fs' = map fst fs" by (induction fs) auto
  with di have "distinct (map fst ?fs')" by (simp only:)
  moreover have "(a, PStr (py_str s)) \<in> set ?fs'" using assms(3) by force
  ultimately have "map_of ?fs' a = Some (PStr (py_str s))" by (rule map_of_is_SomeI)
  with dec to_json_fields_lookup [OF nc di assms(3)] show ?thesis by simp
qed

theorem scalars_stored_as_strings_witness:
  "well_formed example_registry repo1 \<and>
   to_json repo1 = Inr repo1_json \<and>
   from_json example_registry Repo repo1_json = Inr repo1_reloaded \<and>
   map_of [(''repo_id'', PStr ''1''), (''name'', PStr ''x''),
     (''default_branch'', PStr ''main''), (''is_disabled'', PStr ''False'')] ''is_disabled''
     = Some (PStr (py_str (SBool False)))"
proof -
  let ?fs = "[(''repo_id'', PStr ''1''), (''name'', PStr ''x''),
     (''default_branch'', PStr ''main''), (''is_disabled'', PBool False)]"
  have wf: "well_formed example_registry (PInst ''Repo'' ?fs)"
    by (simp add: example_registry_def Repo_def)
  have r: "example_registry ''Repo'' = Some Repo" by (simp add: example_registry_def)
  have m: "(''is_disabled'', PBool False) \<in> set ?fs" by simp
  have tj: "to_json_fields ?fs = [(''repo_id'', PStr ''1''), (''name'', PStr ''x''),
     (''default_branch'', PStr ''main''), (''is_disabled'', PStr ''False'')]"
    by (simp add: to_json_fields.simps py_dict_def)
  from scalars_stored_as_strings [OF wf r m] obtain fs' where
    "from_json example_registry Repo (PDict (to_json_fields ?fs)) = Inr (PInst ''Repo'' fs')"
    "map_of fs' ''is_disabled'' = Some (PStr (py_str (SBool False)))" by blast
  moreover have "from_json example_registry Repo (PDict (to_json_fields ?fs)) = Inr repo1_reloaded"
    using from_json_to_json_fields [OF wf refl r] by (simp add: repo1_reloaded_def)
  ultimately show ?thesis using wf
    by (simp add: repo1_def repo1_json_def repo1_reloaded_def tj)
qed

section \<open>Plan mode\<close>

text \<open>
  C2. While the client's plan-mode flag is set, \<^verbatim>\<open>_create\<close> is the plan component's create
  applied to the untouched world, and \<^verbatim>\<open>_update\<close> validates the attribute and then is the
  plan component's update: in both, no request is added to the HTTP log and the State Store
  is the one before the call. (An update of a non-editable attribute raises and changes
  nothing at all.)
\<close>

theorem plan_mode_isolation:
  assumes "plan_mode cl"
  shows "smr_create cls cl url payload refetch w = planned_create cls cl url payload w \<and>
         http_log (snd (smr_create cls cl url payload refetch w)) = http_log w \<and>
         store (snd (smr_create cls cl url payload refetch w)) = store w \<and>
         (case smr_update cls self cl update_action url attribute_name attribute_value params w of
            (res, self', params', w') \<Rightarrow>
              http_log w' = http_log w \<and> store w' = store w \<and> self' = self \<and>
              (case map_of (get_internal_field_names cls) attribute_name of
                 None \<Rightarrow>
                   w' = w \<and> params' = params \<and> (case res of Inl e \<Rightarrow> True | Inr u \<Rightarrow> False)
               | Some internal \<Rightarrow>
                   res = Inr () \<and> params' = AList.update internal attribute_value params \<and>
                   w' = planned_update cls self cl url attribute_name attribute_value params' w))"
  using assms
  by (simp add: smr_create_def smr_update_def planned_create_def planned_update_def Let_def
      split: option.splits)

theorem plan_mode_isolation_witness:
  "plan_mode (stub_client True False created_response) \<and>
   http_log (snd (smr_create Repo (stub_client True False created_response)
      ''/p/_apis/git/repositories'' (Some [(''name'', PStr ''x'')]) False empty_world)) = [] \<and>
   store (snd (smr_create Repo (stub_client True False created_response)
      ''/p/_apis/git/repositories'' (Some [(''name'', PStr ''x'')]) False empty_world))
      (''Repo'', PStr ''42'') = None \<and>
   length (plan_list (snd (smr_create Repo (stub_client True False created_response)
      ''/p/_apis/git/repositories'' (Some [(''name'', PStr ''x'')]) False empty_world))) = 1 \<and>
   smr_update Repo repo1 (stub_client True False created_response) PATCH
      ''/p/_apis/git/repositories/1'' ''name'' (PStr ''y'') [] world1 =
     (Inr (), repo1, [(''name'', PStr ''y'')],
      world1\<lparr>plan_list :=
        [\<lparr>pc_kind = ''Repo'', pc_operation = PlanUpdate, pc_url = ''/p/_apis/git/repositories/1'',
          pc_before = Some repo1, pc_payload = [(''name'', PStr ''y'')]\<rparr>]\<rparr>)"
proof -
  let ?cl = "stub_client True False created_response"
  have h: "plan_mode ?cl" by (simp add: stub_client_sel)
  have n: "map_of (get_internal_field_names Repo) ''name'' = Some ''name''"
    by (simp add: Repo_internal_names)
  from plan_mode_isolation [OF h, where cls = Repo and url = "''/p/_apis/git/repositories''"
      and payload = "Some [(''name'', PStr ''x'')]" and refetch = False and w = empty_world]
  have c: "http_log (snd (smr_create Repo ?cl ''/p/_apis/git/repositories''
               (Some [(''name'', PStr ''x'')]) False empty_world)) = [] \<and>
           store (snd (smr_create Repo ?cl ''/p/_apis/git/repositories''
               (Some [(''name'', PStr ''x'')]) False empty_world)) (''Repo'', PStr ''42'') = None \<and>
           length (plan_list (snd (smr_create Repo ?cl ''/p/_apis/git/repositories''
               (Some [(''name'', PStr ''x'')]) False empty_world))) = 1"
    by (simp add: planned_create_def empty_world_def Let_def)
  from plan_mode_isolation [OF h, where cls = Repo and url = "''/p/_apis/git/repositories/1''"
      and self = repo1 and update_action = PATCH and attribute_name = "''name''"
      and attribute_value = "PStr ''y''" and params = "[]" and w = world1]
  have u: "smr_update Repo repo1 ?cl PATCH ''/p/_apis/git/repositories/1'' ''name'' (PStr ''y'') []
             world1 =
     (Inr (), repo1, [(''name'', PStr ''y'')],
      world1\<lparr>plan_list :=
        [\<lparr>pc_kind = ''Repo'', pc_operation = PlanUpdate, pc_url = ''/p/_apis/git/repositories/1'',
          pc_before = Some repo1, pc_payload = [(''name'', PStr ''y'')]\<rparr>]\<rparr>)"
    by (auto simp: n planned_update_def Repo_sel world1_def split: prod.splits)
  from h c u show ?thesis by simp
qed

section \<open>Updating\<close>

text \<open>
  C3. \<^verbatim>\<open>_update\<close> with an attribute name that is not among the editable fields of the class
  raises \<^verbatim>\<open>ValueError\<close>, whose message lists the editable attribute names; the world comes back
  as it was (no request in the HTTP log, the same State Store), and so do the instance and
  the caller's \<^verbatim>\<open>params\<close>.
\<close>

theorem update_rejects_non_editable:
  assumes "attribute_name \<notin> set (map fst (get_internal_field_names cls))"
  shows "smr_update cls self cl update_action url attribute_name attribute_value params w =
           (Inl (ValueError (''The attribute `'' @ attribute_name @
                   ''` is not editable!  Editable attributes are: '' @
                   py_repr_names (map fst (get_internal_field_names cls)))),
            self, params, w)"
proof -
  from assms have "map_of (get_internal_field_names cls) attribute_name = None"
    by (simp add: map_of_eq_None_iff)
  then show ?thesis by (simp add: smr_update_def Let_def)
qed

theorem update_rejects_non_editable_witness:
  "''repo_id'' \<notin> set (map fst (get_internal_field_names Repo)) \<and>
   smr_update Repo repo1
     (stub_client False False \<lparr>status_code = 200, resp_text = [], resp_json = None\<rparr>)
     PATCH ''/p/_apis/git/repositories/1'' ''repo_id'' (PStr ''2'') [] empty_world =
     (Inl (ValueError ''The attribute `repo_id` is not editable!  Editable attributes are: ['name', 'default_branch', 'is_disabled']''),
      repo1, [], empty_world)"
proof -
  have h: "''repo_id'' \<notin> set (map fst (get_internal_field_names Repo))"
    by (simp add: Repo_internal_names)
  from update_rejects_non_editable [OF h] show ?thesis
    using h by (simp add: Repo_internal_names py_repr_names_def)
qed

text \<open>
  C10. \<^verbatim>\<open>_update\<close> of an editable attribute, plan mode off, answered with a status other than
  200: the call raises, the instance comes back unchanged and the State Store is the one
  before the call; only the request is added to the HTTP log, and the attribute's wire name
  is merged into \<^verbatim>\<open>params\<close>. The exception is \<^verbatim>\<open>UpdateFailed\<close> whenever the instance has an id
  (otherwise it is the error of \<^verbatim>\<open>extract_id\<close>, raised while the message is built).
\<close>

theorem update_atomic_on_error:
  assumes "map_of (get_internal_field_names cls) attribute_name = Some internal"
    and "\<not> plan_mode cl"
    and "http_send cl \<lparr>req_method = update_action, req_url = full_url cl url,
           req_json = Some (PDict (AList.update internal attribute_value params))\<rparr> w
           = (request, w1)"
    and "status_code request \<noteq> 200"
  shows "\<exists>e. smr_update cls self cl update_action url attribute_name attribute_value params w =
           (Inl e, self, AList.update internal attribute_value params, w1) \<and>
         store w1 = store w \<and>
         (case extract_id cls self of
            Inl e' \<Rightarrow> e = e'
          | Inr i \<Rightarrow>
              e = UpdateFailed (cls_name cls) i attribute_name attribute_value (resp_text request))"
proof -
  from assms(3) have "store w1 = store w" by (auto simp: http_send_def)
  with assms show ?thesis
    by (cases "extract_id cls self") (simp_all add: smr_update_def Let_def)
qed

theorem update_atomic_on_error_witness:
  "smr_update Repo repo1
      (stub_client False False \<lparr>status_code = 500, resp_text = ''boom'', resp_json = None\<rparr>) PATCH
      ''https://dev.azure.com/org/p/_apis/git/repositories/1'' ''name'' (PStr ''y'') [] world1 =
     (Inl (UpdateFailed ''Repo'' (PStr ''1'') ''name'' (PStr ''y'') ''boom''), repo1,
      [(''name'', PStr ''y'')],
      world1\<lparr>http_log := [\<lparr>req_method = PATCH,
         req_url = ''https://dev.azure.com/org/p/_apis/git/repositories/1'',
         req_json = Some (PDict [(''name'', PStr ''y'')])\<rparr>]\<rparr>) \<and>
   store world1 (''Repo'', PStr ''1'') = Some repo1_json"
proof -
  let ?r = "\<lparr>status_code = 500, resp_text = ''boom'', resp_json = None\<rparr>"
  let ?cl = "stub_client False False ?r"
  let ?req = "\<lparr>req_method = PATCH,
      req_url = full_url ?cl ''https://dev.azure.com/org/p/_apis/git/repositories/1'',
      req_json = Some (PDict (AList.update ''name'' (PStr ''y'') []))\<rparr>"
  have n: "map_of (get_internal_field_names Repo) ''name'' = Some ''name''"
    by (simp add: Repo_internal_names)
  have a2: "\<not> plan_mode ?cl" by (simp add: stub_client_sel)
  have a3: "http_send ?cl ?req world1 = (?r, world1\<lparr>http_log := http_log world1 @ [?req]\<rparr>)"
    by (rule http_send_stub)
  have a4: "status_code ?r \<noteq> 200" by simp
  from update_atomic_on_error [OF n a2 a3 a4, where self = repo1]
  show ?thesis
    by (auto simp: repo1_def extract_id_Repo Repo_sel world1_def full_url_def startswith_def)
qed

section \<open>Deleting\<close>

text \<open>
  C4, as the code has it. \<^verbatim>\<open>_delete_by_id\<close>: a 204 response removes the entry of the class
  name and id from the State Store. A 404 response does not raise and removes the entry too;
  it prints the warning unless the client's \<^verbatim>\<open>suppress_warnings\<close> flag is set. Any other
  status raises and leaves the State Store as it was; the exception is \<^verbatim>\<open>DeletionFailed\<close>
  whenever the response body is a JSON object, carrying its \<^verbatim>\<open>message\<close> entry or else the
  response text.
\<close>

theorem delete_by_id_outcomes:
  assumes "http_send cl \<lparr>req_method = DELETE, req_url = full_url cl url, req_json = None\<rparr> w
             = (request, w1)"
  shows "(status_code request = 204 \<longrightarrow>
            smr_delete_by_id cls cl url resource_id w =
              (Inr (), w1\<lparr>store := (store w)((cls_name cls, resource_id) := None)\<rparr>)) \<and>
         (status_code request = 404 \<longrightarrow>
            smr_delete_by_id cls cl url resource_id w =
              (Inr (), w1\<lparr>printed := (if suppress_warnings cl then printed w
                                         else printed w @ [not_found_warning]),
                          store := (store w)((cls_name cls, resource_id) := None)\<rparr>)) \<and>
         (status_code request \<noteq> 204 \<and> status_code request \<noteq> 404 \<longrightarrow>
            store w1 = store w \<and>
            smr_delete_by_id cls cl url resource_id w =
              (Inl (deletion_error cls resource_id request), w1) \<and>
            (case resp_json request of
               Some (PDict d) \<Rightarrow>
                 deletion_error cls resource_id request =
                   DeletionFailed (cls_name cls) resource_id
                     (case map_of d ''message'' of
                        None \<Rightarrow> PStr (resp_text request)
                      | Some m \<Rightarrow> m)
             | _ \<Rightarrow> True))"
proof -
  from assms have w1: "w1 = w\<lparr>http_log := http_log w @
      [\<lparr>req_method = DELETE, req_url = full_url cl url, req_json = None\<rparr>]\<rparr>"
    by (auto simp: http_send_def)
  have d: "deletion_error cls resource_id request =
             DeletionFailed (cls_name cls) resource_id
               (case map_of d ''message'' of None \<Rightarrow> PStr (resp_text request) | Some m \<Rightarrow> m)"
    if "resp_json request = Some (PDict d)" for d
    using that
    by (auto simp: deletion_error_def py_in_def py_getitem_key_def split: option.splits)
  show ?thesis
    using assms d
    by (auto simp: smr_delete_by_id_def remove_resource_from_state_def w1
        split: option.splits pyval.splits)
qed

theorem delete_by_id_outcomes_witness:
  "store (snd (smr_delete_by_id Repo
       (stub_client False False \<lparr>status_code = 204, resp_text = [], resp_json = None\<rparr>)
       ''/p/_apis/git/repositories/1'' (PStr ''1'') world1)) (''Repo'', PStr ''1'') = None \<and>
   smr_delete_by_id Repo
       (stub_client False False \<lparr>status_code = 404, resp_text = [], resp_json = None\<rparr>)
       ''/p/_apis/git/repositories/1'' (PStr ''1'') world1 =
     (Inr (), \<lparr>http_log = [\<lparr>req_method = DELETE,
                   req_url = ''https://dev.azure.com/org/p/_apis/git/repositories/1'',
                   req_json = None\<rparr>],
               store = Map.empty, plan_list = [], printed = [not_found_warning]\<rparr>) \<and>
   fst (smr_delete_by_id Repo
       (stub_client False False \<lparr>status_code = 500, resp_text = ''boom'',
          resp_json = Some (PDict [(''message'', PStr ''locked'')])\<rparr>)
       ''/p/_apis/git/repositories/1'' (PStr ''1'') world1) =
     Inl (DeletionFailed ''Repo'' (PStr ''1'') (PStr ''locked'')) \<and>
   store (snd (smr_delete_by_id Repo
       (stub_client False False \<lparr>status_code = 500, resp_text = ''boom'',
          resp_json = Some (PDict [(''message'', PStr ''locked'')])\<rparr>)
       ''/p/_apis/git/repositories/1'' (PStr ''1'') world1)) (''Repo'', PStr ''1'')
     = Some repo1_json"
proof -
  have h: "http_send (stub_client False False r)
       \<lparr>req_method = DELETE,
        req_url = full_url (stub_client False False r) ''/p/_apis/git/repositories/1'',
        req_json = None\<rparr> world1 =
     (r, world1\<lparr>http_log := http_log world1 @
        [\<lparr>req_method = DELETE,
          req_url = full_url (stub_client False False r) ''/p/_apis/git/repositories/1'',
          req_json = None\<rparr>]\<rparr>)" for r
    by (rule http_send_stub)
  note t = delete_by_id_outcomes [OF h, where cls = Repo and resource_id = "PStr ''1''"]
  have "cls_name Repo = ''Repo''" by (simp add: Repo_def)
  with t [of "\<lparr>status_code = 204, resp_text = [], resp_json = None\<rparr>"]
    t [of "\<lparr>status_code = 404, resp_text = [], resp_json = None\<rparr>"]
    t [of "\<lparr>status_code = 500, resp_text = ''boom'',
          resp_json = Some (PDict [(''message'', PStr ''locked'')])\<rparr>"]
  show ?thesis
    by (simp add: world1_def stub_client_sel full_url_def startswith_def fun_eq_iff)
qed

text \<open>
  C4 as stated fails on the warning: with \<^verbatim>\<open>suppress_warnings\<close> set, a 404 response removes
  the entry and raises nothing, and nothing is printed.
\<close>

theorem delete_404_suppressed_warning:
  "smr_delete_by_id Repo
       (stub_client False True \<lparr>status_code = 404, resp_text = [], resp_json = None\<rparr>)
       ''/p/_apis/git/repositories/1'' (PStr ''1'') world1 =
     (Inr (), \<lparr>http_log = [\<lparr>req_method = DELETE,
                   req_url = ''https://dev.azure.com/org/p/_apis/git/repositories/1'',
                   req_json = None\<rparr>],
               store = Map.empty, plan_list = [], printed = []\<rparr>)"
  by (simp add: smr_delete_by_id_def http_send_stub world1_def stub_client_sel full_url_def
      startswith_def remove_resource_from_state_def Repo_def fun_eq_iff)

section \<open>Creating\<close>

text \<open>
  The default path of \<^verbatim>\<open>_create\<close>: plan mode off, \<^verbatim>\<open>refetch\<close> off, a POST answered by a status
  below 300 and a JSON body that the class's payload mapping turns into a resource. The call
  returns that resource, and afterwards the State Store maps the class name and the
  resource's id to the resource's \<^verbatim>\<open>to_json\<close>. When the resource's \<^verbatim>\<open>name\<close> field is the string
  \<open>x\<close>, the stored JSON has \<open>x\<close> under \<^verbatim>\<open>name\<close>.
\<close>

lemma create_without_refetch_adds_resource_to_state:
  assumes "\<not> plan_mode cl"
    and "\<not> refetch"
    and "http_send cl \<lparr>req_method = POST, req_url = full_url cl url,
           req_json = Some (PDict (case payload of None \<Rightarrow> [] | Some d \<Rightarrow> d))\<rparr> w
           = (request, w1)"
    and "status_code request < 300"
    and "resp_json request = Some body"
    and "cls_from_request_payload cls body = Inr resource"
    and "extract_id cls resource = Inr i"
    and "resource = PInst c fs"
  shows "smr_create cls cl url payload refetch w =
           (Inr (Created resource),
            w1\<lparr>store := (store w1)((cls_name cls, i) \<mapsto> PDict (to_json_fields fs))\<rparr>) \<and>
         (list_all (\<lambda>a. CHR '':'' \<notin> set a) (map fst fs) \<and> distinct (map fst fs) \<and>
          (''name'', PStr x) \<in> set fs \<longrightarrow>
            map_of (to_json_fields fs) ''name'' = Some (PStr x))"
proof (intro conjI impI)
  from assms show "smr_create cls cl url payload refetch w =
           (Inr (Created resource),
            w1\<lparr>store := (store w1)((cls_name cls, i) \<mapsto> PDict (to_json_fields fs))\<rparr>)"
    by (simp add: smr_create_def add_resource_to_state_def)
next
  assume "list_all (\<lambda>a. CHR '':'' \<notin> set a) (map fst fs) \<and> distinct (map fst fs) \<and>
          (''name'', PStr x) \<in> set fs"
  then show "map_of (to_json_fields fs) ''name'' = Some (PStr x)"
    using to_json_fields_lookup [of fs "''name''" "SStr x"] by simp
qed

lemma Repo_payload_42:
  "cls_from_request_payload Repo (PDict [(''id'', PStr ''42''), (''name'', PStr ''x'')])
     = Inr repo42"
  by (simp add: Repo_sel Repo_from_request_payload_def py_getitem_key_def removeprefix_def
      startswith_def py_bool_def repo42_def)

lemma create_without_refetch_example:
  "fst (smr_create Repo (stub_client False False created_response) ''/p/_apis/git/repositories''
          (Some [(''name'', PStr ''x'')]) False empty_world) = Inr (Created repo42) \<and>
   store (snd (smr_create Repo (stub_client False False created_response)
          ''/p/_apis/git/repositories'' (Some [(''name'', PStr ''x'')]) False empty_world))
       (''Repo'', PStr ''42'') =
     Some (PDict (to_json_fields [(''repo_id'', PStr ''42''), (''name'', PStr ''x''),
       (''default_branch'', PStr ''main''), (''is_disabled'', PBool False)])) \<and>
   map_of (to_json_fields [(''repo_id'', PStr ''42''), (''name'', PStr ''x''),
       (''default_branch'', PStr ''main''), (''is_disabled'', PBool False)]) ''name''
     = Some (PStr ''x'')"
proof -
  let ?cl = "stub_client False False created_response"
  let ?fs = "[(''repo_id'', PStr ''42''), (''name'', PStr ''x''),
       (''default_branch'', PStr ''main''), (''is_disabled'', PBool False)]"
  let ?w1 = "empty_world\<lparr>http_log := http_log empty_world @
      [\<lparr>req_method = POST, req_url = full_url ?cl ''/p/_apis/git/repositories'',
        req_json = Some (PDict (case Some [(''name'', PStr ''x'')] of
                                  None \<Rightarrow> [] | Some d \<Rightarrow> d))\<rparr>]\<rparr>"
  have a1: "\<not> plan_mode ?cl" by (simp add: stub_client_sel)
  have a2: "\<not> False" by simp
  have a3: "http_send ?cl \<lparr>req_method = POST, req_url = full_url ?cl ''/p/_apis/git/repositories'',
        req_json = Some (PDict (case Some [(''name'', PStr ''x'')] of
                                  None \<Rightarrow> [] | Some d \<Rightarrow> d))\<rparr>
      empty_world = (created_response, ?w1)"
    by (rule http_send_stub)
  have a4: "status_code created_response < 300" by (simp add: created_response_def)
  have a5: "resp_json created_response = Some (PDict [(''id'', PStr ''42''), (''name'', PStr ''x'')])"
    by (simp add: created_response_def)
  have a7: "extract_id Repo repo42 = Inr (PStr ''42'')" by (simp add: repo42_def extract_id_Repo)
  have a8: "repo42 = PInst ''Repo'' ?fs" by (simp add: repo42_def)
  from create_without_refetch_adds_resource_to_state
    [OF a1 a2 a3 a4 a5 Repo_payload_42 a7 a8, where x = "''x''"]
  show ?thesis by (simp add: Repo_sel empty_world_def)
qed

text \<open>
  The \<^verbatim>\<open>refetch\<close> path. The docstring of \<^verbatim>\<open>_create\<close> says that refetching does a
  \<^verbatim>\<open>.get_by_id()\<close> after creation, and the subclasses define \<^verbatim>\<open>get_by_id\<close>; the code calls
  \<^verbatim>\<open>cls._get_by_id\<close>, which the base class leaves as \<^verbatim>\<open>raise NotImplementedError\<close>. For every
  class that inherits it, a create with \<^verbatim>\<open>refetch\<close> set whose POST succeeds raises
  \<^verbatim>\<open>NotImplementedError\<close> after the request, returns no resource and leaves the State Store as
  it was.
\<close>

lemma create_refetch_base_class:
  assumes "\<not> plan_mode cl"
    and "cls_get_by_id cls = not_implemented_get_by_id"
    and "http_send cl \<lparr>req_method = POST, req_url = full_url cl url,
           req_json = Some (PDict (case payload of None \<Rightarrow> [] | Some d \<Rightarrow> d))\<rparr> w
           = (request, w1)"
    and "status_code request < 300"
    and "resp_json request = Some body"
    and "cls_from_request_payload cls body = Inr resource0"
    and "extract_id cls resource0 = Inr i"
  shows "smr_create cls cl url payload True w = (Inl NotImplementedError, w1) \<and>
         store w1 = store w"
proof -
  from assms(3) have "store w1 = store w" by (auto simp: http_send_def)
  with assms show ?thesis
    by (simp add: smr_create_def not_implemented_get_by_id_def)
qed

text \<open>
  C5 says that every create call whose POST succeeds with a payload such as
  \<^verbatim>\<open>{"id": "42", "name": "x"}\<close> returns the created resource and leaves the key of the type name
  and \<^verbatim>\<open>"42"\<close> in the State Store. The code breaks this when \<^verbatim>\<open>refetch\<close> is set: for \<^verbatim>\<open>Repo\<close>,
  a POST answered with 201 and that payload is followed by \<^verbatim>\<open>NotImplementedError\<close>; the request
  has been sent, no resource is returned and the State Store holds nothing under
  \<^verbatim>\<open>("Repo", "42")\<close>.
\<close>

theorem create_refetch_not_implemented:
  "smr_create Repo (stub_client False False created_response) ''/p/_apis/git/repositories''
     (Some [(''name'', PStr ''x'')]) True empty_world =
     (Inl NotImplementedError,
      \<lparr>http_log = [\<lparr>req_method = POST,
                     req_url = ''https://dev.azure.com/org/p/_apis/git/repositories'',
                     req_json = Some (PDict [(''name'', PStr ''x'')])\<rparr>],
       store = Map.empty, plan_list = [], printed = []\<rparr>) \<and>
   store (snd (smr_create Repo (stub_client False False created_response)
     ''/p/_apis/git/repositories'' (Some [(''name'', PStr ''x'')]) True empty_world))
     (''Repo'', PStr ''42'') = None"
  by (simp add: smr_create_def http_send_stub stub_client_sel created_response_def Repo_sel
      Repo_from_request_payload_def py_getitem_key_def removeprefix_def py_bool_def
      extract_id_Repo not_implemented_get_by_id_def empty_world_def full_url_def startswith_def)

section \<open>Statuses 401 and 403\<close>

text \<open>
  C7, as the code has it. With plan mode off and a response of status 401 or 403:
  \<^verbatim>\<open>_create\<close> raises \<^verbatim>\<open>InvalidPermissionsError\<close>; \<^verbatim>\<open>_update\<close> of an editable attribute of an
  instance with an id raises \<^verbatim>\<open>UpdateFailed\<close>; \<^verbatim>\<open>_delete_by_id\<close>, when the response body is a
  JSON object, raises \<^verbatim>\<open>DeletionFailed\<close>. Update and delete treat 401 and 403 like every other
  failure status.
\<close>

theorem permission_status_classification:
  assumes "\<not> plan_mode cl"
    and "status_code request = 401 \<or> status_code request = 403"
  shows "(http_send cl \<lparr>req_method = POST, req_url = full_url cl url,
              req_json = Some (PDict (case payload of None \<Rightarrow> [] | Some d \<Rightarrow> d))\<rparr> w
              = (request, w1) \<longrightarrow>
            smr_create cls cl url payload refetch w =
              (Inl (InvalidPermissionsError
                 (''You do not have permission to create this '' @ cls_name cls @ ''! '' @
                  resp_text request)), w1)) \<and>
         (map_of (get_internal_field_names cls) attribute_name = Some internal \<and>
          http_send cl \<lparr>req_method = update_action, req_url = full_url cl url,
              req_json = Some (PDict (AList.update internal attribute_value params))\<rparr> w
              = (request, w1) \<and>
          extract_id cls self = Inr i \<longrightarrow>
            fst (smr_update cls self cl update_action url attribute_name attribute_value params w) =
              Inl (UpdateFailed (cls_name cls) i attribute_name attribute_value
                     (resp_text request))) \<and>
         (http_send cl \<lparr>req_method = DELETE, req_url = full_url cl url, req_json = None\<rparr> w
              = (request, w1) \<and>
          resp_json request = Some (PDict d) \<longrightarrow>
            fst (smr_delete_by_id cls cl url resource_id w) =
              Inl (DeletionFailed (cls_name cls) resource_id
                     (case map_of d ''message'' of
                        None \<Rightarrow> PStr (resp_text request)
                      | Some m \<Rightarrow> m)))"
proof (intro conjI impI)
  assume "http_send cl \<lparr>req_method = POST, req_url = full_url cl url,
              req_json = Some (PDict (case payload of None \<Rightarrow> [] | Some d \<Rightarrow> d))\<rparr> w
              = (request, w1)"
  with assms show "smr_create cls cl url payload refetch w =
              (Inl (InvalidPermissionsError
                 (''You do not have permission to create this '' @ cls_name cls @ ''! '' @
                  resp_text request)), w1)"
    by (auto simp: smr_create_def)
next
  assume "map_of (get_internal_field_names cls) attribute_name = Some internal \<and>
          http_send cl \<lparr>req_method = update_action, req_url = full_url cl url,
              req_json = Some (PDict (AList.update internal attribute_value params))\<rparr> w
              = (request, w1) \<and>
          extract_id cls self = Inr i"
  with assms
  show "fst (smr_update cls self cl update_action url attribute_name attribute_value params w) =
              Inl (UpdateFailed (cls_name cls) i attribute_name attribute_value
                     (resp_text request))"
    by (auto simp: smr_update_def Let_def)
next
  assume "http_send cl \<lparr>req_method = DELETE, req_url = full_url cl url, req_json = None\<rparr> w
              = (request, w1) \<and>
          resp_json request = Some (PDict d)"
  with assms(2) show "fst (smr_delete_by_id cls cl url resource_id w) =
              Inl (DeletionFailed (cls_name cls) resource_id
                     (case map_of d ''message'' of
                        None \<Rightarrow> PStr (resp_text request)
                      | Some m \<Rightarrow> m))"
    by (auto simp: smr_delete_by_id_def deletion_error_def py_in_def py_getitem_key_def
        split: option.splits)
qed

theorem permission_status_classification_witness:
  "\<not> plan_mode (stub_client False False denied_response) \<and>
   (status_code denied_response = 401 \<or> status_code denied_response = 403) \<and>
   fst (smr_create Repo (stub_client False False denied_response) ''/p/_apis/git/repositories''
          (Some [(''name'', PStr ''x'')]) False empty_world) =
     Inl (InvalidPermissionsError ''You do not have permission to create this Repo! denied'') \<and>
   fst (smr_update Repo repo1 (stub_client False False denied_response) PATCH
          ''/p/_apis/git/repositories'' ''name'' (PStr ''y'') [] empty_world) =
     Inl (UpdateFailed ''Repo'' (PStr ''1'') ''name'' (PStr ''y'') ''denied'') \<and>
   fst (smr_delete_by_id Repo (stub_client False False denied_response)
          ''/p/_apis/git/repositories'' (PStr ''1'') empty_world) =
     Inl (DeletionFailed ''Repo'' (PStr ''1'') (PStr ''no access''))"
proof -
  let ?cl = "stub_client False False denied_response"
  have a1: "\<not> plan_mode ?cl" by (simp add: stub_client_sel)
  have a2: "status_code denied_response = 401 \<or> status_code denied_response = 403"
    by (simp add: denied_response_def)
  have n: "map_of (get_internal_field_names Repo) ''name'' = Some ''name''"
    by (simp add: Repo_internal_names)
  have i: "extract_id Repo repo1 = Inr (PStr ''1'')" by (simp add: repo1_def extract_id_Repo)
  have j: "resp_json denied_response = Some (PDict [(''message'', PStr ''no access'')])"
    by (simp add: denied_response_def)
  from permission_status_classification [OF a1 a2, where url = "''/p/_apis/git/repositories''"
      and payload = "Some [(''name'', PStr ''x'')]" and w = empty_world and cls = Repo
      and refetch = False and attribute_name = "''name''" and internal = "''name''"
      and update_action = PATCH and attribute_value = "PStr ''y''" and params = "[]"
      and self = repo1 and i = "PStr ''1''" and d = "[(''message'', PStr ''no access'')]"
      and resource_id = "PStr ''1''"]
  show ?thesis
    using a1 a2 n i j by (simp add: http_send_stub Repo_sel denied_response_def)
qed

text \<open>
  C7 as stated fails for update: a PATCH answered with 403 raises \<^verbatim>\<open>UpdateFailed\<close>, which is
  not the permission error.
\<close>

theorem update_403_raises_update_failed:
  "fst (smr_update Repo repo1 (stub_client False False denied_response) PATCH
          ''/p/_apis/git/repositories/1'' ''name'' (PStr ''y'') [] empty_world) =
     Inl (UpdateFailed ''Repo'' (PStr ''1'') ''name'' (PStr ''y'') ''denied'') \<and>
   \<not> is_permission_error (UpdateFailed ''Repo'' (PStr ''1'') ''name'' (PStr ''y'') ''denied'')"
  by (simp add: smr_update_def Repo_internal_names http_send_stub stub_client_sel
      denied_response_def repo1_def extract_id_Repo Repo_sel is_permission_error_def Let_def)

end
